theory Spec2Isabelle
  imports Main "HOL-Library.Word"
begin

unbundle bit_operations_syntax

section \<open>Basic types\<close>

text \<open>
  Go's \<open>uint64\<close> and \<open>int64\<close> are 64-bit words; \<open>int64\<close> values are compared with
  the signed order \<open><s\<close> and read with \<open>sint\<close>.  \<open>*big.Int\<close> is \<open>int\<close> (or \<open>nat\<close>
  where the value is built from bytes).  A \<open>common.Hash\<close> is a list of 32 bytes, a
  \<open>common.Address\<close> a 160-bit word.
\<close>

type_synonym byte = "8 word"
type_synonym uint64 = "64 word"
type_synonym int64 = "64 word"
type_synonym hash = "byte list"
type_synonym address = "160 word"

text \<open>
  Errors are values.  \<open>Wrap e msg\<close> is \<open>errorsmod.Wrap(e, msg)\<close>; \<open>ErrExternal\<close> stands for an
  error produced by a collaborator whose code is outside the sources; \<open>Panic\<close> is a Go panic.
\<close>

datatype error =
    ErrCreateDisabled
  | ErrCallDisabled
  | ErrIntrinsicGas
  | ErrGasOverflow
  | ErrUnknownRequest
  | ErrExternal string
  | Panic string
  | Wrap error string

section \<open>Fixed-point decimals (\<open>cosmos.Dec\<close>)\<close>

text \<open>
  A \<open>cosmos.Dec\<close> is a big integer scaled by \<open>10^18\<close>.  \<open>NewDec\<close>, \<open>Mul\<close> (which rounds the
  exact product half-to-even at 18 decimals and panics beyond \<open>maxDecBitLen\<close> bits),
  \<open>MaxDec\<close>, \<open>TruncateInt\<close> (towards zero) and \<open>Int.Uint64\<close> (which panics outside the
  \<open>uint64\<close> range) are the library operations used by \<open>ApplyMessageWithConfig\<close>.
\<close>

type_synonym dec = int

definition precisionReuse :: int where
  "precisionReuse = 10 ^ 18"

definition fivePrecision :: int where
  "fivePrecision = 5 * 10 ^ 17"

definition maxDecBitLen :: nat where
  "maxDecBitLen = 315"

definition NewDec :: "int \<Rightarrow> dec" where
  "NewDec i = i * precisionReuse"

definition roundNonNeg :: "int \<Rightarrow> int" where
  "roundNonNeg d =
     (let quo = d div precisionReuse; rem = d mod precisionReuse in
      if rem = 0 then quo
      else if rem < fivePrecision then quo
      else if rem > fivePrecision then quo + 1
      else if even quo then quo else quo + 1)"

definition chopPrecisionAndRound :: "int \<Rightarrow> int" where
  "chopPrecisionAndRound d = (if d < 0 then - roundNonNeg (- d) else roundNonNeg d)"

definition chopPrecisionAndTruncate :: "int \<Rightarrow> int" where
  "chopPrecisionAndTruncate d =
     (if d < 0 then - ((- d) div precisionReuse) else d div precisionReuse)"

definition dec_Mul :: "dec \<Rightarrow> dec \<Rightarrow> error + dec" where
  "dec_Mul d d2 =
     (let chopped = chopPrecisionAndRound (d * d2) in
      if 2 ^ maxDecBitLen \<le> \<bar>chopped\<bar> then Inl (Panic ''Int overflow'') else Inr chopped)"

definition MaxDec :: "dec \<Rightarrow> dec \<Rightarrow> dec" where
  "MaxDec d1 d2 = (if d1 < d2 then d2 else d1)"

definition TruncateInt :: "dec \<Rightarrow> int" where
  "TruncateInt d = chopPrecisionAndTruncate d"

definition Int_Uint64 :: "int \<Rightarrow> error + uint64" where
  "Int_Uint64 i =
     (if 0 \<le> i \<and> i < 2 ^ 64 then Inr (word_of_int i)
      else Inl (Panic ''Uint64() out of bounds''))"

section \<open>Data of the state transition\<close>

text \<open>\<open>common.Hash{}\<close>, the zero identifier.\<close>

definition zero_hash :: hash where
  "zero_hash = replicate 32 0"

text \<open>
  \<open>common.BytesToHash\<close> (go-ethereum): when the input is longer than 32 bytes it is cropped
  from the left; the bytes are then copied to the right end of a zeroed 32-byte array.
\<close>

definition BytesToHash :: "byte list \<Rightarrow> hash" where
  "BytesToHash b =
     (let b' = (if length b > 32 then drop (length b - 32) b else b)
      in replicate (32 - length b') 0 @ b')"

text \<open>\<open>big.Int.SetBytes\<close>: the bytes read as a big-endian unsigned number.\<close>

definition big_SetBytes :: "byte list \<Rightarrow> nat" where
  "big_SetBytes bs = foldl (\<lambda>acc b. acc * 256 + unat b) 0 bs"

text \<open>
  The consensus header (as protobuf and as decoded by \<open>cometbft.HeaderFromProto\<close>).  Only
  the fields read by the functions below are named; \<open>hdr_rest\<close> stands for the others.
\<close>

record header =
  hdr_Height :: int64
  hdr_Time :: int64
  hdr_ProposerAddress :: "byte list"
  hdr_rest :: "byte list"

record eth_log =
  log_Address :: address
  log_Topics :: "hash list"
  log_Data :: "byte list"

record txs_log =
  plog_Address :: string
  plog_Topics :: "string list"
  plog_Data :: "byte list"

text \<open>
  The transient (per-block) store of the module: accumulated bloom, next log index, next
  transaction index and gas used.  The bloom is kept as the number that
  \<open>GetBlockBloomTransient\<close> returns as \<open>*big.Int\<close>.
\<close>

record transient_store =
  BlockBloomTransient :: nat
  LogSizeTransient :: uint64
  TxIndexTransient :: uint64
  TransientGasUsed :: uint64

text \<open>
  The multi-store behind a context: the persistent ledger \<open>'s\<close> (accounts, balances, code,
  storage), which this development leaves abstract, and the transient store.
\<close>

record 's multi_store =
  persistent :: 's
  transient :: transient_store

record block_gas_meter =
  bgm_Limit :: uint64
  bgm_GasConsumed :: uint64

text \<open>
  \<open>cosmos.Context\<close>.  The stores, the gas meter and the event manager are shared mutable
  objects in Go; here the context carries their current value and every function that
  writes returns the new context.  \<open>BlockGasMeter\<close> is \<open>None\<close> for a nil meter.
\<close>

record 's sdk_ctx =
  BlockHeight :: int64
  HeaderHash :: "byte list"
  BlockHeader :: header
  MultiStore :: "'s multi_store"
  GasMeterConsumed :: uint64
  BlockGasMeter :: "block_gas_meter option"
  EventManager :: "string list"

text \<open>\<open>core.Message\<close>; \<open>msg_To = None\<close> is a contract creation.\<close>

record message =
  msg_To :: "address option"
  msg_From :: address
  msg_Nonce :: uint64
  msg_Value :: int
  msg_GasLimit :: uint64
  msg_GasPrice :: int
  msg_Data :: "byte list"
  msg_AccessList :: "(address \<times> hash list) list"

record eth_tx =
  tx_Hash :: hash
  tx_Type :: byte
  tx_payload :: "byte list"

record chain_config =
  ChainID :: int
  BerlinBlock :: "int option"
  LondonBlock :: "int option"
  MergeNetsplitBlock :: "int option"

record evm_params =
  EvmDenom :: string
  EnableCreate :: bool
  EnableCall :: bool

record evm_config =
  Params :: evm_params
  ChainConfig :: chain_config
  CoinBase :: address
  BaseFee :: "int option"

record tx_config =
  BlockHash :: hash
  TxHash :: hash
  TxIndex :: uint64
  LogIndex :: uint64

record msg_response =
  res_Hash :: string
  res_Logs :: "txs_log list"
  res_Ret :: "byte list"
  res_VmError :: string
  res_GasUsed :: uint64
  res_CumulativeGasUsed :: uint64

record receipt =
  rc_Type :: byte
  rc_PostState :: "byte list"
  rc_Status :: uint64
  rc_CumulativeGasUsed :: uint64
  rc_Bloom :: nat
  rc_Logs :: "eth_log list"
  rc_TxHash :: hash
  rc_ContractAddress :: address
  rc_GasUsed :: uint64
  rc_BlockHash :: hash
  rc_BlockNumber :: int
  rc_TransactionIndex :: uint64

text \<open>
  Modelled from the spec: the \<open>StateDB\<close> of package \<open>x/evm/states\<close>, which is not among the
  sources.  It is the isolated, in-memory view of the ledger that the virtual machine works
  on: the account nonces, the refund counter and the emitted logs are named because
  \<open>ApplyMessageWithConfig\<close> reads or writes them directly; \<open>db_other\<close> is everything else
  (balances, code, storage, access list, journal).
\<close>

record 'o state_db =
  db_nonce :: "address \<Rightarrow> uint64"
  db_refund :: uint64
  db_logs :: "eth_log list"
  db_other :: 'o

definition SetNonce :: "'o state_db \<Rightarrow> address \<Rightarrow> uint64 \<Rightarrow> 'o state_db" where
  "SetNonce db addr n = db\<lparr>db_nonce := (db_nonce db)(addr := n)\<rparr>"

definition GetRefund :: "'o state_db \<Rightarrow> uint64" where
  "GetRefund db = db_refund db"

text \<open>The execution context handed to the virtual machine (\<open>vm.BlockContext\<close>).\<close>

record block_context =
  bc_GetHash :: "uint64 \<Rightarrow> hash"
  bc_Coinbase :: address
  bc_GasLimit :: uint64
  bc_BlockNumber :: int
  bc_Time :: uint64
  bc_Difficulty :: int
  bc_BaseFee :: "int option"
  bc_Random :: "hash option"

record tx_context =
  tc_Origin :: address
  tc_GasPrice :: int

record vm_config =
  vc_Tracer :: string
  vc_options :: "byte list"

record evm =
  ev_Context :: block_context
  ev_TxContext :: tx_context
  ev_chainConfig :: chain_config
  ev_Config :: vm_config

datatype signer = MakeSigner chain_config int uint64

record rules =
  IsBerlin :: bool
  IsLondon_rule :: bool

text \<open>
  The collaborators of the keeper.  Their code is outside the sources (other packages of
  the repository, the SDK, the consensus engine, the virtual machine), so they are
  parameters: every theorem below holds for any behaviour of theirs.  The \<open>StateDB\<close> pointer
  that the Go \<open>vm.EVM\<close> holds is passed to \<open>evm_Create\<close> and \<open>evm_Call\<close> explicitly, and
  they return the \<open>StateDB\<close> they leave behind.  A VM error is the text of its \<open>Error()\<close>.
  \<open>Commit\<close> and \<open>RefundGas\<close> write to the persistent ledger and return the new one.
\<close>

record ('s, 'o) keeper =
  eip155ChainID :: int
  SafeInt64 :: "uint64 \<Rightarrow> error + int64"
  GetHistoricalInfo :: "'s sdk_ctx \<Rightarrow> int64 \<Rightarrow> header option"
  HeaderFromProto :: "header \<Rightarrow> error + header"
  header_Hash :: "header \<Rightarrow> byte list"
  EVMConfig :: "'s sdk_ctx \<Rightarrow> byte list \<Rightarrow> int \<Rightarrow> error + evm_config"
  TxConfig :: "'s sdk_ctx \<Rightarrow> hash \<Rightarrow> byte \<Rightarrow> tx_config"
  TransactionToMessage :: "eth_tx \<Rightarrow> signer \<Rightarrow> int option \<Rightarrow> error + message"
  BlockGasLimit :: "'s sdk_ctx \<Rightarrow> uint64"
  Tracer :: "'s sdk_ctx \<Rightarrow> message \<Rightarrow> chain_config \<Rightarrow> string"
  VMConfig :: "'s sdk_ctx \<Rightarrow> message \<Rightarrow> evm_config \<Rightarrow> string \<Rightarrow> vm_config"
  GetEthIntrinsicGas :: "'s sdk_ctx \<Rightarrow> message \<Rightarrow> chain_config \<Rightarrow> bool \<Rightarrow> error + uint64"
  states_New :: "'s sdk_ctx \<Rightarrow> tx_config \<Rightarrow> 'o state_db"
  ActivePrecompiles :: "rules \<Rightarrow> address list"
  PrepareAccessList ::
    "'o state_db \<Rightarrow> address \<Rightarrow> address option \<Rightarrow> address list \<Rightarrow>
     (address \<times> hash list) list \<Rightarrow> 'o state_db"
  evm_Create ::
    "evm \<Rightarrow> 'o state_db \<Rightarrow> address \<Rightarrow> byte list \<Rightarrow> uint64 \<Rightarrow> int \<Rightarrow>
     (byte list \<times> address \<times> uint64 \<times> string option) \<times> 'o state_db"
  evm_Call ::
    "evm \<Rightarrow> 'o state_db \<Rightarrow> address \<Rightarrow> address \<Rightarrow> byte list \<Rightarrow> uint64 \<Rightarrow> int \<Rightarrow>
     (byte list \<times> uint64 \<times> string option) \<times> 'o state_db"
  Commit :: "'o state_db \<Rightarrow> 's \<Rightarrow> error option \<times> 's"
  GetMinGasMultiplier :: "'s sdk_ctx \<Rightarrow> dec"
  RefundGas :: "'s sdk_ctx \<Rightarrow> message \<Rightarrow> uint64 \<Rightarrow> string \<Rightarrow> error option \<times> 's"
  LogsBloom :: "eth_log list \<Rightarrow> byte list"
  LogsToEthereum :: "txs_log list \<Rightarrow> eth_log list"
  NewLogsFromEth :: "eth_log list \<Rightarrow> txs_log list"
  CreateAddress :: "address \<Rightarrow> uint64 \<Rightarrow> address"
  Hex :: "hash \<Rightarrow> string"

section \<open>Historical block hashes: \<open>GetHashFn\<close>\<close>

definition GetHashFn :: "('s, 'o) keeper \<Rightarrow> 's sdk_ctx \<Rightarrow> uint64 \<Rightarrow> hash" where
  "GetHashFn k ctx height =
     (case SafeInt64 k height of
        Inl err \<Rightarrow> zero_hash
      | Inr h \<Rightarrow>
          if BlockHeight ctx = h then
            (let headerHash = HeaderHash ctx in
             if length headerHash \<noteq> 0 then BytesToHash headerHash
             else
               (case HeaderFromProto k (BlockHeader ctx) of
                  Inl err \<Rightarrow> zero_hash
                | Inr hdr \<Rightarrow> BytesToHash (header_Hash k hdr)))
          else if h <s BlockHeight ctx then
            (case GetHistoricalInfo k ctx h of
               None \<Rightarrow> zero_hash
             | Some histHeader \<Rightarrow>
                 (case HeaderFromProto k histHeader of
                    Inl err \<Rightarrow> zero_hash
                  | Inr hdr \<Rightarrow> BytesToHash (header_Hash k hdr)))
          else zero_hash)"

section \<open>The execution context: \<open>NewEVM\<close>\<close>

text \<open>Fork activation (go-ethereum's \<open>isBlockForked\<close>, \<open>IsLondon\<close>, \<open>Rules\<close>).\<close>

definition isBlockForked :: "int option \<Rightarrow> int \<Rightarrow> bool" where
  "isBlockForked s head = (case s of None \<Rightarrow> False | Some b \<Rightarrow> b \<le> head)"

definition IsLondon :: "chain_config \<Rightarrow> int \<Rightarrow> bool" where
  "IsLondon c num = isBlockForked (LondonBlock c) num"

definition Rules :: "chain_config \<Rightarrow> int \<Rightarrow> bool \<Rightarrow> uint64 \<Rightarrow> rules" where
  "Rules c num isMerge timestamp =
     \<lparr>IsBerlin = isBlockForked (BerlinBlock c) num,
      IsLondon_rule = isBlockForked (LondonBlock c) num\<rparr>"

definition NewEVM ::
  "('s, 'o) keeper \<Rightarrow> 's sdk_ctx \<Rightarrow> message \<Rightarrow> evm_config \<Rightarrow> string option \<Rightarrow> evm" where
  "NewEVM k ctx msg cfg tracer =
     (let blockCtx =
            \<lparr>bc_GetHash = GetHashFn k ctx,
             bc_Coinbase = CoinBase cfg,
             bc_GasLimit = BlockGasLimit k ctx,
             bc_BlockNumber = sint (BlockHeight ctx),
             bc_Time = hdr_Time (BlockHeader ctx),
             bc_Difficulty = 0,
             bc_BaseFee = BaseFee cfg,
             bc_Random = None\<rparr>;
          txCtx = \<lparr>tc_Origin = msg_From msg, tc_GasPrice = msg_GasPrice msg\<rparr>;
          tracer' = (case tracer of None \<Rightarrow> Tracer k ctx msg (ChainConfig cfg) | Some t \<Rightarrow> t);
          vmConfig = VMConfig k ctx msg cfg tracer'
      in \<lparr>ev_Context = blockCtx, ev_TxContext = txCtx,
          ev_chainConfig = ChainConfig cfg, ev_Config = vmConfig\<rparr>)"

section \<open>Executing one message: \<open>ApplyMessageWithConfig\<close>\<close>

text \<open>go-ethereum's \<open>params.RefundQuotient\<close> and \<open>params.RefundQuotientEIP3529\<close>.\<close>

definition RefundQuotient :: uint64 where
  "RefundQuotient = 2"

definition RefundQuotientEIP3529 :: uint64 where
  "RefundQuotientEIP3529 = 5"

text \<open>
  Modelled from the spec: \<open>GasToRefund\<close> (the keeper's gas helpers are not among the
  sources).  The spec's \<open>CapRefund(rawRefundCounter, gasUsedBeforeRefund, quotient)\<close> is
  \<open>min(rawRefundCounter, gasUsedBeforeRefund / quotient)\<close>.
\<close>

definition GasToRefund :: "uint64 \<Rightarrow> uint64 \<Rightarrow> uint64 \<Rightarrow> uint64" where
  "GasToRefund availableRefund gasConsumed refundQuotient =
     min availableRefund (gasConsumed div refundQuotient)"

text \<open>Lines 333-337: the access list is prepared when the Berlin rules are active.\<close>

definition prepareAccessList ::
  "('s, 'o) keeper \<Rightarrow> 's sdk_ctx \<Rightarrow> message \<Rightarrow> evm_config \<Rightarrow> 'o state_db \<Rightarrow> 'o state_db" where
  "prepareAccessList k ctx msg cfg stateDB =
     (let rules = Rules (ChainConfig cfg) (sint (BlockHeight ctx))
                    (MergeNetsplitBlock (ChainConfig cfg) \<noteq> None) (hdr_Time (BlockHeader ctx))
      in if IsBerlin rules
         then PrepareAccessList k stateDB (msg_From msg) (msg_To msg)
                (ActivePrecompiles k rules) (msg_AccessList msg)
         else stateDB)"

text \<open>
  Lines 339-348: a contract creation runs between two writes of the sender's nonce, a
  call runs directly.  The result is \<open>(ret, leftoverGas, vmErr)\<close> and the \<open>StateDB\<close> left.
\<close>

definition executeMessage ::
  "('s, 'o) keeper \<Rightarrow> evm \<Rightarrow> 'o state_db \<Rightarrow> message \<Rightarrow> uint64 \<Rightarrow>
   (byte list \<times> uint64 \<times> string option) \<times> 'o state_db" where
  "executeMessage k evm stateDB msg leftoverGas =
     (case msg_To msg of
        None \<Rightarrow>
          (let stateDB1 = SetNonce stateDB (msg_From msg) (msg_Nonce msg);
               ((ret, addr, leftoverGas', vmErr), stateDB2) =
                  evm_Create k evm stateDB1 (msg_From msg) (msg_Data msg) leftoverGas (msg_Value msg);
               stateDB3 = SetNonce stateDB2 (msg_From msg) (msg_Nonce msg + 1)
           in ((ret, leftoverGas', vmErr), stateDB3))
      | Some to \<Rightarrow>
          evm_Call k evm stateDB (msg_From msg) to (msg_Data msg) leftoverGas (msg_Value msg))"

text \<open>
  Lines 350-367: the refund.  The result is the leftover gas and the gas used, both after
  the refund.
\<close>

definition applyRefund :: "bool \<Rightarrow> uint64 \<Rightarrow> uint64 \<Rightarrow> uint64 \<Rightarrow> error + (uint64 \<times> uint64)" where
  "applyRefund isLondon msgGasLimit leftoverGas availableRefund =
     (let refundQuotient = (if isLondon then RefundQuotientEIP3529 else RefundQuotient) in
      if msgGasLimit < leftoverGas then Inl (Wrap ErrGasOverflow ''apply message'')
      else
        (let temporaryGasUsed = msgGasLimit - leftoverGas;
             refund = GasToRefund availableRefund temporaryGasUsed refundQuotient
         in Inr (leftoverGas + refund, temporaryGasUsed - refund)))"

text \<open>
  Lines 382-395: the minimum gas charge.  \<open>int64(x)\<close> reads the 64 bits as a signed number.
  The result is the gas used and the leftover gas recomputed from it.  (The Go error text
  of the second overflow check also prints the two numbers.)
\<close>

definition chargeMinimumGas ::
  "dec \<Rightarrow> uint64 \<Rightarrow> uint64 \<Rightarrow> uint64 \<Rightarrow> error + (uint64 \<times> uint64)" where
  "chargeMinimumGas minGasMultiplier msgGasLimit leftoverGas temporaryGasUsed =
     (let gasLimit = NewDec (sint msgGasLimit) in
      case dec_Mul gasLimit minGasMultiplier of
        Inl e \<Rightarrow> Inl e
      | Inr minimumGasUsed \<Rightarrow>
          if msgGasLimit < leftoverGas
          then Inl (Wrap ErrGasOverflow ''message gas limit < leftover gas'')
          else
            (case Int_Uint64 (TruncateInt (MaxDec minimumGasUsed (NewDec (sint temporaryGasUsed)))) of
               Inl e \<Rightarrow> Inl e
             | Inr gasUsed \<Rightarrow> Inr (gasUsed, msgGasLimit - gasUsed)))"

text \<open>Lines 375-380: \<open>stateDB.Commit()\<close> writes the \<open>StateDB\<close> into the context's ledger.\<close>

definition commitStateDB ::
  "('s, 'o) keeper \<Rightarrow> 'o state_db \<Rightarrow> 's sdk_ctx \<Rightarrow> error option \<times> 's sdk_ctx" where
  "commitStateDB k stateDB ctx =
     (let (err, s) = Commit k stateDB (persistent (MultiStore ctx))
      in (err, ctx\<lparr>MultiStore := (MultiStore ctx)\<lparr>persistent := s\<rparr>\<rparr>))"

definition ApplyMessageWithConfig ::
  "('s, 'o) keeper \<Rightarrow> 's sdk_ctx \<Rightarrow> message \<Rightarrow> string option \<Rightarrow> bool \<Rightarrow> evm_config \<Rightarrow>
   tx_config \<Rightarrow> (error + msg_response) \<times> 's sdk_ctx" where
  "ApplyMessageWithConfig k ctx msg tracer commit cfg txConfig =
     (if \<not> EnableCreate (Params cfg) \<and> msg_To msg = None
      then (Inl (Wrap ErrCreateDisabled ''failed to create new contract''), ctx)
      else if \<not> EnableCall (Params cfg) \<and> msg_To msg \<noteq> None
      then (Inl (Wrap ErrCallDisabled ''failed to call contract''), ctx)
      else
        (let stateDB = states_New k ctx txConfig;
             evm = NewEVM k ctx msg cfg tracer;
             leftoverGas = msg_GasLimit msg;
             contractCreation = (msg_To msg = None);
             isLondon = IsLondon (ChainConfig cfg) (bc_BlockNumber (ev_Context evm))
         in case GetEthIntrinsicGas k ctx msg (ChainConfig cfg) contractCreation of
              Inl err \<Rightarrow> (Inl (Wrap err ''intrinsic gas failed''), ctx)
            | Inr intrinsicGas \<Rightarrow>
                if leftoverGas < intrinsicGas
                then (Inl (Wrap ErrIntrinsicGas ''apply message''), ctx)
                else
                  (let stateDB1 = prepareAccessList k ctx msg cfg stateDB;
                       ((ret, leftoverGas1, vmErr), stateDB2) =
                          executeMessage k evm stateDB1 msg (leftoverGas - intrinsicGas)
                   in case applyRefund isLondon (msg_GasLimit msg) leftoverGas1 (GetRefund stateDB2) of
                        Inl err \<Rightarrow> (Inl err, ctx)
                      | Inr (leftoverGas2, temporaryGasUsed) \<Rightarrow>
                          (let vmError = (case vmErr of None \<Rightarrow> [] | Some e \<Rightarrow> e);
                               (commitErr, ctx1) =
                                  (if commit then commitStateDB k stateDB2 ctx else (None, ctx))
                           in case commitErr of
                                Some err \<Rightarrow> (Inl (Wrap err ''failed to commit stateDB''), ctx1)
                              | None \<Rightarrow>
                                  (case chargeMinimumGas (GetMinGasMultiplier k ctx1)
                                          (msg_GasLimit msg) leftoverGas2 temporaryGasUsed of
                                     Inl err \<Rightarrow> (Inl err, ctx1)
                                   | Inr (gasUsed, leftoverGas3) \<Rightarrow>
                                       (Inr \<lparr>res_Hash = Hex k (TxHash txConfig),
                                             res_Logs = NewLogsFromEth k (db_logs stateDB2),
                                             res_Ret = ret,
                                             res_VmError = vmError,
                                             res_GasUsed = gasUsed,
                                             res_CumulativeGasUsed = 0\<rparr>, ctx1))))))"

section \<open>Applying one transaction: \<open>ApplyTransaction\<close>\<close>

text \<open>
  \<open>ctx.CacheContext()\<close> (SDK): the new context has a cache of the multi-store and an event
  manager of its own.  Writes through it stay in the cache; the returned \<open>commit\<close> function
  writes the cache into the parent's multi-store.  The parent is not written to between
  the two, so the cache is modelled as a copy and \<open>commit\<close> as its write-back.
\<close>

definition CacheContext :: "'s sdk_ctx \<Rightarrow> 's sdk_ctx" where
  "CacheContext ctx = ctx\<lparr>EventManager := []\<rparr>"

text \<open>
  Modelled from the spec: \<open>MsgEthereumTxResponse.Failed\<close> (package \<open>txs\<close>, not among the
  sources): the status is failure when the VM reported an error, that is when the error
  text of the response is not empty.
\<close>

definition Failed :: "msg_response \<Rightarrow> bool" where
  "Failed res = (length (res_VmError res) \<noteq> 0)"

definition ReceiptStatusFailed :: uint64 where
  "ReceiptStatusFailed = 0"

definition ReceiptStatusSuccessful :: uint64 where
  "ReceiptStatusSuccessful = 1"

text \<open>
  \<open>ethereum.BytesToBloom(bloom.Bytes())\<close>: the number as a 256-byte bloom; go-ethereum
  panics when the bytes do not fit.
\<close>

definition BytesToBloom :: "nat \<Rightarrow> error + nat" where
  "BytesToBloom bloom =
     (if 2 ^ 2048 \<le> bloom then Inl (Panic ''bloom bytes too big'') else Inr bloom)"

text \<open>
  Modelled from the spec: the keeper's accessors of the transient store and of the gas
  meter (not among the sources).  Each setter writes its one field; \<open>AddTransientGasUsed\<close>
  adds to the transient total and fails when the sum overflows;
  \<open>ResetGasMeterAndConsumeGas\<close> resets the context's gas meter to the given total.
\<close>

definition GetBlockBloomTransient :: "'s sdk_ctx \<Rightarrow> nat" where
  "GetBlockBloomTransient ctx = BlockBloomTransient (transient (MultiStore ctx))"

definition update_transient ::
  "(transient_store \<Rightarrow> transient_store) \<Rightarrow> 's sdk_ctx \<Rightarrow> 's sdk_ctx" where
  "update_transient f ctx =
     ctx\<lparr>MultiStore := (MultiStore ctx)\<lparr>transient := f (transient (MultiStore ctx))\<rparr>\<rparr>"

definition SetBlockBloomTransient :: "'s sdk_ctx \<Rightarrow> nat \<Rightarrow> 's sdk_ctx" where
  "SetBlockBloomTransient ctx bloom = update_transient (\<lambda>t. t\<lparr>BlockBloomTransient := bloom\<rparr>) ctx"

definition SetLogSizeTransient :: "'s sdk_ctx \<Rightarrow> uint64 \<Rightarrow> 's sdk_ctx" where
  "SetLogSizeTransient ctx logSize = update_transient (\<lambda>t. t\<lparr>LogSizeTransient := logSize\<rparr>) ctx"

definition SetTxIndexTransient :: "'s sdk_ctx \<Rightarrow> uint64 \<Rightarrow> 's sdk_ctx" where
  "SetTxIndexTransient ctx index = update_transient (\<lambda>t. t\<lparr>TxIndexTransient := index\<rparr>) ctx"

definition AddTransientGasUsed :: "'s sdk_ctx \<Rightarrow> uint64 \<Rightarrow> (error + uint64) \<times> 's sdk_ctx" where
  "AddTransientGasUsed ctx gasUsed =
     (let result = TransientGasUsed (transient (MultiStore ctx)) + gasUsed in
      if result < gasUsed then (Inl (Wrap ErrGasOverflow ''transient gas used''), ctx)
      else (Inr result, update_transient (\<lambda>t. t\<lparr>TransientGasUsed := result\<rparr>) ctx))"

definition ResetGasMeterAndConsumeGas :: "'s sdk_ctx \<Rightarrow> uint64 \<Rightarrow> 's sdk_ctx" where
  "ResetGasMeterAndConsumeGas ctx gasUsed = ctx\<lparr>GasMeterConsumed := gasUsed\<rparr>"

text \<open>Lines 166-171: the bloom of the receipt.\<close>

definition receiptBloom :: "('s, 'o) keeper \<Rightarrow> 's sdk_ctx \<Rightarrow> eth_log list \<Rightarrow> error + nat" where
  "receiptBloom k ctx logs =
     (if length logs > 0
      then BytesToBloom (GetBlockBloomTransient ctx OR big_SetBytes (LogsBloom k logs))
      else Inr 0)"

text \<open>Lines 173-180: the cumulative gas used.\<close>

definition cumulativeGas :: "'s sdk_ctx \<Rightarrow> uint64 \<Rightarrow> uint64" where
  "cumulativeGas ctx gasUsed =
     (case BlockGasMeter ctx of
        None \<Rightarrow> gasUsed
      | Some meter \<Rightarrow>
          (let limit = bgm_Limit meter;
               cumulativeGasUsed = gasUsed + bgm_GasConsumed meter
           in if cumulativeGasUsed > limit then limit else cumulativeGasUsed))"

text \<open>
  Lines 164-231, after the message has been executed on the cached context \<open>tmpCtx\<close>.
  The receipt is a local variable of the Go function; it is returned beside the response
  so that it can be talked about.
\<close>

definition finishTransaction ::
  "('s, 'o) keeper \<Rightarrow> 's sdk_ctx \<Rightarrow> 's sdk_ctx \<Rightarrow> eth_tx \<Rightarrow> message \<Rightarrow> evm_config \<Rightarrow>
   tx_config \<Rightarrow> msg_response \<Rightarrow> (error + msg_response \<times> receipt) \<times> 's sdk_ctx" where
  "finishTransaction k ctx tmpCtx tx msg evmConfig txConfig res0 =
     (let logs = LogsToEthereum k (res_Logs res0) in
      case receiptBloom k ctx logs of
        Inl e \<Rightarrow> (Inl e, ctx)
      | Inr bloomReceipt \<Rightarrow>
          (let cumulativeGasUsed = cumulativeGas ctx (res_GasUsed res0);
               res1 = res0\<lparr>res_CumulativeGasUsed := cumulativeGasUsed\<rparr>;
               contractAddr =
                 (if msg_To msg = None then CreateAddress k (msg_From msg) (msg_Nonce msg) else 0);
               receipt0 =
                 \<lparr>rc_Type = tx_Type tx,
                  rc_PostState = [],
                  rc_Status = ReceiptStatusFailed,
                  rc_CumulativeGasUsed = cumulativeGasUsed,
                  rc_Bloom = bloomReceipt,
                  rc_Logs = logs,
                  rc_TxHash = TxHash txConfig,
                  rc_ContractAddress = contractAddr,
                  rc_GasUsed = res_GasUsed res1,
                  rc_BlockHash = BlockHash txConfig,
                  rc_BlockNumber = sint (BlockHeight ctx),
                  rc_TransactionIndex = TxIndex txConfig\<rparr>;
               receipt =
                 (if \<not> Failed res1 then receipt0\<lparr>rc_Status := ReceiptStatusSuccessful\<rparr>
                  else receipt0);
               res =
                 (if \<not> Failed res1 then res1\<lparr>res_Logs := NewLogsFromEth k (rc_Logs receipt)\<rparr>
                  else res1);
               ctx1 =
                 (if \<not> Failed res1
                  then ctx\<lparr>MultiStore := MultiStore tmpCtx,
                           EventManager := EventManager ctx @ EventManager tmpCtx\<rparr>
                  else ctx)
           in case RefundGas k ctx1 msg (msg_GasLimit msg - res_GasUsed res)
                     (EvmDenom (Params evmConfig)) of
                (Some err, s) \<Rightarrow>
                  (Inl (Wrap err ''failed to refund gas leftover gas to sender''),
                   ctx1\<lparr>MultiStore := (MultiStore ctx1)\<lparr>persistent := s\<rparr>\<rparr>)
              | (None, s) \<Rightarrow>
                  (let ctx2 = ctx1\<lparr>MultiStore := (MultiStore ctx1)\<lparr>persistent := s\<rparr>\<rparr>;
                       ctx3 =
                         (if length (rc_Logs receipt) > 0
                          then SetLogSizeTransient
                                 (SetBlockBloomTransient ctx2 (rc_Bloom receipt))
                                 (LogIndex txConfig + of_nat (length (rc_Logs receipt)))
                          else ctx2);
                       ctx4 = SetTxIndexTransient ctx3 (TxIndex txConfig + 1)
                   in case AddTransientGasUsed ctx4 (res_GasUsed res) of
                        (Inl err, ctx5) \<Rightarrow>
                          (Inl (Wrap err ''failed to add transient gas used''), ctx5)
                      | (Inr totalGasUsed, ctx5) \<Rightarrow>
                          (Inr (res, receipt), ResetGasMeterAndConsumeGas ctx5 totalGasUsed))))"

definition ApplyTransaction ::
  "('s, 'o) keeper \<Rightarrow> 's sdk_ctx \<Rightarrow> eth_tx \<Rightarrow> (error + msg_response \<times> receipt) \<times> 's sdk_ctx" where
  "ApplyTransaction k ctx tx =
     (case EVMConfig k ctx (hdr_ProposerAddress (BlockHeader ctx)) (eip155ChainID k) of
        Inl err \<Rightarrow> (Inl (Wrap err ''failed to load evm config''), ctx)
      | Inr evmConfig \<Rightarrow>
          (let txConfig = TxConfig k ctx (tx_Hash tx) (tx_Type tx);
               signer = MakeSigner (ChainConfig evmConfig) (sint (BlockHeight ctx))
                          (hdr_Time (BlockHeader ctx))
           in case TransactionToMessage k tx signer (BaseFee evmConfig) of
                Inl err \<Rightarrow> (Inl (Wrap err ''failed to return ethereum txs as core message''), ctx)
              | Inr msg \<Rightarrow>
                  (let tmpCtx = CacheContext ctx in
                   case ApplyMessageWithConfig k tmpCtx msg None True evmConfig txConfig of
                     (Inl err, tmpCtx') \<Rightarrow>
                       (Inl (Wrap err ''failed to apply ethereum core message''), ctx)
                   | (Inr res, tmpCtx') \<Rightarrow>
                       finishTransaction k ctx tmpCtx' tx msg evmConfig txConfig res)))"

section \<open>The signature verification stage: \<open>AnteHandle\<close>\<close>

text \<open>
  \<open>MsgEthereumTx\<close> with its \<open>From\<close> field, and the messages of a transaction: either an
  Ethereum message or a message of another type (named by its type).
\<close>

record msg_ethereum_tx =
  met_Data :: "byte list"
  met_From :: string

datatype sdk_msg = MsgEthereumTx msg_ethereum_tx | OtherMsg string

text \<open>
  The context as the stage sees it: the ledger, the re-check flag, and the value stored
  under \<open>AspectContextKey\<close>.  The aspect runtime context holds the Ethereum transaction
  context and the cosmos context it was created in.
\<close>

datatype 's ante_ctx =
  AnteCtx (ac_store: 's) (ac_IsReCheckTx: bool) (ac_AspectContext: "'s aspect_ctx option")
and 's aspect_ctx =
  AspectRuntimeContext (arc_ethTxContext: eth_tx) (arc_cosmosContext: "'s ante_ctx")

text \<open>
  The collaborators of the stage (package \<open>txs\<close> and the keeper's \<open>VerifySig\<close>, none among
  the sources).  \<open>VerifySig\<close> recovers the sender or fails; it is given the context to read.
\<close>

record 's ante_deps =
  AsEthCallTransaction :: "msg_ethereum_tx \<Rightarrow> eth_tx"
  AsTransaction :: "msg_ethereum_tx \<Rightarrow> eth_tx"
  VerifySig :: "'s ante_ctx \<Rightarrow> eth_tx \<Rightarrow> error + address"
  address_Hex :: "address \<Rightarrow> string"

text \<open>Lines 39-44: the context with the aspect runtime context of the message.\<close>

definition withAspectContext :: "'s ante_deps \<Rightarrow> 's ante_ctx \<Rightarrow> msg_ethereum_tx \<Rightarrow> 's ante_ctx" where
  "withAspectContext d ctx msgEthTx =
     (let ethTxContext = AsEthCallTransaction d msgEthTx;
          aspectCtx = AspectRuntimeContext ethTxContext ctx
      in AnteCtx (ac_store ctx) (ac_IsReCheckTx ctx) (Some aspectCtx))"

text \<open>
  Lines 33-54: the loop over the messages.  The messages are pointers in Go and the loop
  writes their \<open>From\<close> field in place, so the messages are returned as the loop leaves them,
  also when it stops with an error.
\<close>

fun verifyMsgs ::
  "'s ante_deps \<Rightarrow> 's ante_ctx \<Rightarrow> sdk_msg list \<Rightarrow> ('s ante_ctx \<times> error option) \<times> sdk_msg list" where
  "verifyMsgs d ctx [] = ((ctx, None), [])"
| "verifyMsgs d ctx (OtherMsg t # msgs) =
     ((ctx, Some (Wrap ErrUnknownRequest ''invalid message type'')), OtherMsg t # msgs)"
| "verifyMsgs d ctx (MsgEthereumTx msgEthTx # msgs) =
     (let ctx' = withAspectContext d ctx msgEthTx;
          ethTx = AsTransaction d msgEthTx
      in case VerifySig d ctx' ethTx of
           Inl err \<Rightarrow> ((ctx', Some err), MsgEthereumTx msgEthTx # msgs)
         | Inr sender \<Rightarrow>
             (let msgEthTx' = msgEthTx\<lparr>met_From := address_Hex d sender\<rparr>;
                  (r, msgs') = verifyMsgs d ctx' msgs
              in (r, MsgEthereumTx msgEthTx' # msgs')))"

definition AnteHandle ::
  "'s ante_deps \<Rightarrow> 's ante_ctx \<Rightarrow> sdk_msg list \<Rightarrow> bool \<Rightarrow>
   ('s ante_ctx \<Rightarrow> sdk_msg list \<Rightarrow> bool \<Rightarrow> ('s ante_ctx \<times> error option) \<times> sdk_msg list) \<Rightarrow>
   ('s ante_ctx \<times> error option) \<times> sdk_msg list" where
  "AnteHandle d ctx tx simulate next =
     (case verifyMsgs d ctx tx of
        ((ctx', Some err), tx') \<Rightarrow> ((ctx', Some err), tx')
      | ((ctx', None), tx') \<Rightarrow> next ctx' tx' simulate)"

text \<open>
  For the statements about the loop: the context after the loop has gone through the given
  messages, each Ethereum message having stored its aspect runtime context (line 44).  The
  signature of message \<open>i\<close> is verified in \<open>ctxAfter d ctx (take (Suc i) msgs)\<close>.
\<close>

fun ctxAfter :: "'s ante_deps \<Rightarrow> 's ante_ctx \<Rightarrow> sdk_msg list \<Rightarrow> 's ante_ctx" where
  "ctxAfter d ctx [] = ctx"
| "ctxAfter d ctx (OtherMsg t # msgs) = ctxAfter d ctx msgs"
| "ctxAfter d ctx (MsgEthereumTx msgEthTx # msgs) = ctxAfter d (withAspectContext d ctx msgEthTx) msgs"

section \<open>A concrete instance\<close>

text \<open>
  A small keeper on which the functions above can be run.  The ledger is the pair of the
  sender's nonce and balance, and the \<open>StateDB\<close> works on a copy of it.  The virtual
  machine charges 1000 gas per byte of input and takes one unit of balance per byte; for
  every input byte \<open>1\<close> it emits one log and counts 6000 gas of refund; it reports
  \<open>execution reverted\<close> when the input contains the byte \<open>255\<close>.  A transaction of type 2 is
  a contract creation.  The minimum gas multiplier is one half.
\<close>

definition demo_sender :: address where
  "demo_sender = 170"

definition demo_chain_config :: chain_config where
  "demo_chain_config =
     \<lparr>ChainID = 11822, BerlinBlock = Some 0, LondonBlock = Some 10, MergeNetsplitBlock = None\<rparr>"

definition demo_evm_config :: evm_config where
  "demo_evm_config =
     \<lparr>Params = \<lparr>EvmDenom = ''aart'', EnableCreate = True, EnableCall = True\<rparr>,
      ChainConfig = demo_chain_config, CoinBase = 7, BaseFee = None\<rparr>"

definition demo_run ::
  "(nat \<times> nat) state_db \<Rightarrow> byte list \<Rightarrow> uint64 \<Rightarrow> (uint64 \<times> string option) \<times> (nat \<times> nat) state_db" where
  "demo_run db data gas =
     ((gas - min gas (1000 * of_nat (length data)),
       if 255 \<in> set data then Some ''execution reverted'' else None),
      db\<lparr>db_refund := 6000 * of_nat (length (filter (\<lambda>b. b = 1) data)),
         db_logs := map (\<lambda>b. \<lparr>log_Address = 187, log_Topics = [], log_Data = [b]\<rparr>)
                      (filter (\<lambda>b. b = 1) data),
         db_other := (fst (db_other db), snd (db_other db) - length data)\<rparr>)"

definition demo_message :: "eth_tx \<Rightarrow> message" where
  "demo_message tx =
     \<lparr>msg_To = (if tx_Type tx = 2 then None else Some 187),
      msg_From = demo_sender,
      msg_Nonce = 7,
      msg_Value = 0,
      msg_GasLimit = 100001,
      msg_GasPrice = 1,
      msg_Data = tx_payload tx,
      msg_AccessList = []\<rparr>"

definition demo_keeper :: "(nat \<times> nat, nat \<times> nat) keeper" where
  "demo_keeper =
     \<lparr>eip155ChainID = 11822,
      SafeInt64 = (\<lambda>v. if v \<le> 9223372036854775807 then Inr v
                         else Inl (ErrExternal ''uint64 value over MaxInt64'')),
      GetHistoricalInfo = (\<lambda>ctx h. if h = 3
                         then Some \<lparr>hdr_Height = 3, hdr_Time = 30, hdr_ProposerAddress = [9],
                                    hdr_rest = [1, 2, 3]\<rparr>
                         else None),
      HeaderFromProto = (\<lambda>h. if hdr_rest h = [] then Inl (ErrExternal ''invalid header'')
                         else Inr h),
      header_Hash = (\<lambda>h. hdr_rest h),
      EVMConfig = (\<lambda>ctx proposer chainID. Inr demo_evm_config),
      TxConfig = (\<lambda>ctx txHash txType.
                    \<lparr>BlockHash = BytesToHash (HeaderHash ctx), TxHash = txHash,
                     TxIndex = TxIndexTransient (transient (MultiStore ctx)),
                     LogIndex = LogSizeTransient (transient (MultiStore ctx))\<rparr>),
      TransactionToMessage = (\<lambda>tx signer baseFee. Inr (demo_message tx)),
      BlockGasLimit = (\<lambda>ctx. 30000000),
      Tracer = (\<lambda>ctx msg cfg. ''noop''),
      VMConfig = (\<lambda>ctx msg cfg tracer. \<lparr>vc_Tracer = tracer, vc_options = []\<rparr>),
      GetEthIntrinsicGas = (\<lambda>ctx msg cfg contractCreation.
                    Inr (if contractCreation then 53000 else 21000)),
      states_New = (\<lambda>ctx txConfig.
                    \<lparr>db_nonce = (\<lambda>a. of_nat (fst (persistent (MultiStore ctx)))),
                     db_refund = 0, db_logs = [],
                     db_other = persistent (MultiStore ctx)\<rparr>),
      ActivePrecompiles = (\<lambda>rules. [1, 2, 3, 4]),
      PrepareAccessList = (\<lambda>db sender dst precompiles list. db),
      evm_Create = (\<lambda>evm db sender data gas val.
                    (let ((gas', vmErr), db') = demo_run db data gas
                     in ((data, 204, gas', vmErr), db'))),
      evm_Call = (\<lambda>evm db sender to data gas val.
                    (let ((gas', vmErr), db') = demo_run db data gas
                     in ((data, gas', vmErr), db'))),
      Commit = (\<lambda>db s. (None, (unat (db_nonce db demo_sender), snd (db_other db)))),
      GetMinGasMultiplier = (\<lambda>ctx. 5 * 10 ^ 17),
      RefundGas = (\<lambda>ctx msg leftoverGas denom.
                    (None, (fst (persistent (MultiStore ctx)),
                            snd (persistent (MultiStore ctx)) + unat leftoverGas))),
      LogsBloom = (\<lambda>logs. [4]),
      LogsToEthereum = map (\<lambda>l. \<lparr>log_Address = 187, log_Topics = [], log_Data = plog_Data l\<rparr>),
      NewLogsFromEth = map (\<lambda>l. \<lparr>plog_Address = ''0xbb'', plog_Topics = [],
                                   plog_Data = log_Data l\<rparr>),
      CreateAddress = (\<lambda>sender nonce. 204),
      Hex = (\<lambda>h. ''0x'')\<rparr>"

definition demo_header :: header where
  "demo_header = \<lparr>hdr_Height = 5, hdr_Time = 50, hdr_ProposerAddress = [9], hdr_rest = [5, 5]\<rparr>"

definition demo_ctx :: "(nat \<times> nat) sdk_ctx" where
  "demo_ctx =
     \<lparr>BlockHeight = 5,
      HeaderHash = [0, 17],
      BlockHeader = demo_header,
      MultiStore = \<lparr>persistent = (0, 1000),
                    transient = \<lparr>BlockBloomTransient = 3, LogSizeTransient = 2,
                                 TxIndexTransient = 1, TransientGasUsed = 0\<rparr>\<rparr>,
      GasMeterConsumed = 12345,
      BlockGasMeter = Some \<lparr>bgm_Limit = 30000000, bgm_GasConsumed = 60000\<rparr>,
      EventManager = []\<rparr>"

definition demo_tx :: "byte \<Rightarrow> byte list \<Rightarrow> eth_tx" where
  "demo_tx ty payload = \<lparr>tx_Hash = BytesToHash [1], tx_Type = ty, tx_payload = payload\<rparr>"

definition demo_tx_config :: tx_config where
  "demo_tx_config =
     \<lparr>BlockHash = BytesToHash [0, 17], TxHash = BytesToHash [1], TxIndex = 1, LogIndex = 2\<rparr>"

text \<open>The same configuration with creation and calls disabled by governance.\<close>

definition demo_disabled_config :: evm_config where
  "demo_disabled_config =
     demo_evm_config\<lparr>Params := \<lparr>EvmDenom = ''aart'', EnableCreate = False, EnableCall = False\<rparr>\<rparr>"

text \<open>A context whose header hash is set, to 32 zero bytes.\<close>

definition zero_header_ctx :: "(nat \<times> nat) sdk_ctx" where
  "zero_header_ctx = demo_ctx\<lparr>HeaderHash := replicate 32 0\<rparr>"

text \<open>A context without header hash (as in a query), and one whose header does not decode.\<close>

definition query_ctx :: "(nat \<times> nat) sdk_ctx" where
  "query_ctx = demo_ctx\<lparr>HeaderHash := []\<rparr>"

definition bad_header_ctx :: "(nat \<times> nat) sdk_ctx" where
  "bad_header_ctx = demo_ctx\<lparr>HeaderHash := [], BlockHeader := demo_header\<lparr>hdr_rest := []\<rparr>\<rparr>"

text \<open>
  Two transactions of one block.  The first, in \<open>demo_ctx\<close>, is a call with input
  \<open>[1, 1]\<close>; the values below are the \<open>StateDB\<close> after the call, the response of
  \<open>ApplyMessageWithConfig\<close>, the cached context after it, the receipt, and the context that
  \<open>ApplyTransaction\<close> leaves.
\<close>

definition demo_log :: eth_log where
  "demo_log = \<lparr>log_Address = 187, log_Topics = [], log_Data = [1]\<rparr>"

definition demo_plog :: txs_log where
  "demo_plog = \<lparr>plog_Address = ''0xbb'', plog_Topics = [], plog_Data = [1]\<rparr>"

definition demo_call :: message where
  "demo_call = demo_message (demo_tx 0 [1, 1])"

definition demo_call_db :: "(nat \<times> nat) state_db" where
  "demo_call_db =
     \<lparr>db_nonce = (\<lambda>a. 0), db_refund = 12000, db_logs = [demo_log, demo_log],
      db_other = (0, 998)\<rparr>"

definition demo_call_res :: msg_response where
  "demo_call_res =
     \<lparr>res_Hash = ''0x'', res_Logs = [demo_plog, demo_plog], res_Ret = [1, 1], res_VmError = [],
      res_GasUsed = 50000, res_CumulativeGasUsed = 0\<rparr>"

definition demo_call_snapshot :: "(nat \<times> nat) sdk_ctx" where
  "demo_call_snapshot =
     demo_ctx\<lparr>MultiStore := \<lparr>persistent = (0, 998), transient = transient (MultiStore demo_ctx)\<rparr>\<rparr>"

definition demo_call_receipt :: receipt where
  "demo_call_receipt =
     \<lparr>rc_Type = 0, rc_PostState = [], rc_Status = 1, rc_CumulativeGasUsed = 110000,
      rc_Bloom = 7, rc_Logs = [demo_log, demo_log], rc_TxHash = BytesToHash [1],
      rc_ContractAddress = 0, rc_GasUsed = 50000, rc_BlockHash = BytesToHash [0, 17],
      rc_BlockNumber = 5, rc_TransactionIndex = 1\<rparr>"

definition demo_call_final :: "(nat \<times> nat) sdk_ctx" where
  "demo_call_final =
     demo_ctx\<lparr>MultiStore :=
                 \<lparr>persistent = (0, 50999),
                  transient = \<lparr>BlockBloomTransient = 7, LogSizeTransient = 4,
                               TxIndexTransient = 2, TransientGasUsed = 50000\<rparr>\<rparr>,
              GasMeterConsumed := 50000\<rparr>"

text \<open>
  The second transaction is a contract creation with input \<open>[255]\<close>, which reverts.  Its
  context \<open>demo_ctx_later\<close> is the one the first transaction left, with the gas of the first
  consumed from the block gas meter and the gas counters of the transaction reset.
\<close>

definition demo_ctx_later :: "(nat \<times> nat) sdk_ctx" where
  "demo_ctx_later =
     \<lparr>BlockHeight = 5,
      HeaderHash = [0, 17],
      BlockHeader = demo_header,
      MultiStore = \<lparr>persistent = (0, 50999),
                    transient = \<lparr>BlockBloomTransient = 7, LogSizeTransient = 4,
                                 TxIndexTransient = 2, TransientGasUsed = 0\<rparr>\<rparr>,
      GasMeterConsumed = 0,
      BlockGasMeter = Some \<lparr>bgm_Limit = 30000000, bgm_GasConsumed = 110000\<rparr>,
      EventManager = []\<rparr>"

definition demo_tx_config_later :: tx_config where
  "demo_tx_config_later =
     \<lparr>BlockHash = BytesToHash [0, 17], TxHash = BytesToHash [1], TxIndex = 2, LogIndex = 4\<rparr>"

definition demo_create :: message where
  "demo_create = demo_message (demo_tx 2 [255])"

definition demo_create_db :: "(nat \<times> nat) state_db" where
  "demo_create_db =
     \<lparr>db_nonce = (\<lambda>a. 0)(demo_sender := 8), db_refund = 0, db_logs = [],
      db_other = (0, 50998)\<rparr>"

definition demo_create_res :: msg_response where
  "demo_create_res =
     \<lparr>res_Hash = ''0x'', res_Logs = [], res_Ret = [255], res_VmError = ''execution reverted'',
      res_GasUsed = 54000, res_CumulativeGasUsed = 0\<rparr>"

definition demo_create_snapshot :: "(nat \<times> nat) sdk_ctx" where
  "demo_create_snapshot =
     demo_ctx_later\<lparr>MultiStore :=
        \<lparr>persistent = (8, 50998), transient = transient (MultiStore demo_ctx_later)\<rparr>\<rparr>"

definition demo_create_receipt :: receipt where
  "demo_create_receipt =
     \<lparr>rc_Type = 2, rc_PostState = [], rc_Status = 0, rc_CumulativeGasUsed = 164000,
      rc_Bloom = 0, rc_Logs = [], rc_TxHash = BytesToHash [1],
      rc_ContractAddress = 204, rc_GasUsed = 54000, rc_BlockHash = BytesToHash [0, 17],
      rc_BlockNumber = 5, rc_TransactionIndex = 2\<rparr>"

definition demo_create_final :: "(nat \<times> nat) sdk_ctx" where
  "demo_create_final =
     demo_ctx_later\<lparr>MultiStore :=
                 \<lparr>persistent = (0, 97000),
                  transient = \<lparr>BlockBloomTransient = 7, LogSizeTransient = 4,
                               TxIndexTransient = 3, TransientGasUsed = 54000\<rparr>\<rparr>,
              GasMeterConsumed := 54000\<rparr>"






text \<open>
  An instance of the signature stage: recovery fails on an empty payload and otherwise
  yields the payload's length as the sender.
\<close>

definition demo_ante_deps :: "nat ante_deps" where
  "demo_ante_deps =
     \<lparr>AsEthCallTransaction = (\<lambda>m. \<lparr>tx_Hash = [], tx_Type = 0, tx_payload = met_Data m\<rparr>),
      AsTransaction = (\<lambda>m. \<lparr>tx_Hash = [], tx_Type = 2, tx_payload = met_Data m\<rparr>),
      VerifySig = (\<lambda>ctx tx. if tx_payload tx = [] then Inl (ErrExternal ''invalid signature'')
                              else Inr (of_nat (length (tx_payload tx)))),
      address_Hex = (\<lambda>a. if a = 1 then ''0x01'' else ''0x02'')\<rparr>"

definition demo_ante_ctx :: "nat ante_ctx" where
  "demo_ante_ctx = AnteCtx 42 True None"

definition demo_next ::
  "nat ante_ctx \<Rightarrow> sdk_msg list \<Rightarrow> bool \<Rightarrow> (nat ante_ctx \<times> error option) \<times> sdk_msg list" where
  "demo_next ctx tx simulate = ((ctx, None), tx)"

definition demo_msgs :: "sdk_msg list" where
  "demo_msgs =
     [MsgEthereumTx \<lparr>met_Data = [7], met_From = []\<rparr>,
      MsgEthereumTx \<lparr>met_Data = [7, 8], met_From = []\<rparr>]"

definition demo_msgs_unsigned :: "sdk_msg list" where
  "demo_msgs_unsigned =
     [MsgEthereumTx \<lparr>met_Data = [7], met_From = []\<rparr>,
      MsgEthereumTx \<lparr>met_Data = [], met_From = []\<rparr>]"

section \<open>Lemmas\<close>

lemmas demo_defs = demo_keeper_def demo_ctx_def demo_tx_def demo_message_def demo_run_def
  demo_evm_config_def demo_chain_config_def demo_sender_def demo_header_def demo_tx_config_def
  demo_disabled_config_def demo_ctx_later_def demo_tx_config_later_def

lemmas demo_vals = demo_log_def demo_plog_def demo_call_def demo_create_def demo_call_db_def
  demo_create_db_def demo_call_res_def demo_create_res_def demo_call_snapshot_def
  demo_create_snapshot_def

lemmas demo_finals = demo_call_receipt_def demo_call_final_def demo_create_receipt_def
  demo_create_final_def


lemmas transient_defs = SetBlockBloomTransient_def SetLogSizeTransient_def SetTxIndexTransient_def
  AddTransientGasUsed_def ResetGasMeterAndConsumeGas_def update_transient_def
  GetBlockBloomTransient_def

lemmas finish_defs = finishTransaction_def receiptBloom_def cumulativeGas_def BytesToBloom_def
  big_SetBytes_def Failed_def ReceiptStatusFailed_def ReceiptStatusSuccessful_def transient_defs

lemmas amwc_defs = ApplyMessageWithConfig_def NewEVM_def IsLondon_def isBlockForked_def
  prepareAccessList_def Rules_def executeMessage_def applyRefund_def chargeMinimumGas_def
  commitStateDB_def GasToRefund_def RefundQuotient_def RefundQuotientEIP3529_def GetRefund_def
  SetNonce_def NewDec_def dec_Mul_def MaxDec_def TruncateInt_def Int_Uint64_def
  chopPrecisionAndRound_def chopPrecisionAndTruncate_def roundNonNeg_def precisionReuse_def
  fivePrecision_def maxDecBitLen_def

text \<open>What a successful run of \<open>ApplyMessageWithConfig\<close> went through.\<close>

lemma amwc_success:
  assumes "ApplyMessageWithConfig k ctx msg tracer commit cfg txConfig = (Inr res, ctx')"
  shows "\<exists>ig ret l1 vmErr db l2 used gasUsed l3.
     (EnableCreate (Params cfg) \<or> msg_To msg \<noteq> None) \<and>
     (EnableCall (Params cfg) \<or> msg_To msg = None) \<and>
     GetEthIntrinsicGas k ctx msg (ChainConfig cfg) (msg_To msg = None) = Inr ig \<and>
     ig \<le> msg_GasLimit msg \<and>
     executeMessage k (NewEVM k ctx msg cfg tracer)
        (prepareAccessList k ctx msg cfg (states_New k ctx txConfig)) msg (msg_GasLimit msg - ig)
       = ((ret, l1, vmErr), db) \<and>
     applyRefund (IsLondon (ChainConfig cfg) (sint (BlockHeight ctx))) (msg_GasLimit msg) l1 (GetRefund db)
       = Inr (l2, used) \<and>
     (if commit then commitStateDB k db ctx = (None, ctx') else ctx' = ctx) \<and>
     chargeMinimumGas (GetMinGasMultiplier k ctx') (msg_GasLimit msg) l2 used = Inr (gasUsed, l3) \<and>
     res = \<lparr>res_Hash = Hex k (TxHash txConfig),
            res_Logs = NewLogsFromEth k (db_logs db),
            res_Ret = ret,
            res_VmError = (case vmErr of None \<Rightarrow> [] | Some e \<Rightarrow> e),
            res_GasUsed = gasUsed,
            res_CumulativeGasUsed = 0\<rparr>"
  using assms
  unfolding ApplyMessageWithConfig_def Let_def
  by (auto split: if_splits sum.splits prod.splits option.splits simp: NewEVM_def Let_def)

text \<open>The refund step, in machine arithmetic and in natural numbers (nothing wraps).\<close>

lemma applyRefund_Inr:
  fixes gl l1 raw l2 used q refund :: uint64
  assumes "applyRefund isLondon gl l1 raw = Inr (l2, used)"
  defines "q \<equiv> (if isLondon then RefundQuotientEIP3529 else RefundQuotient)"
    and "refund \<equiv> GasToRefund raw (gl - l1) q"
  shows "l1 \<le> gl"
    and "l2 = l1 + refund"
    and "used = (gl - l1) - refund"
    and "refund = min raw ((gl - l1) div q)"
    and "unat refund \<le> unat (gl - l1) div unat q"
    and "unat (gl - l1) = unat gl - unat l1"
    and "unat l2 = unat l1 + unat refund"
    and "unat used = unat (gl - l1) - unat refund"
proof -
  from assms(1) show le: "l1 \<le> gl" and l2: "l2 = l1 + refund" and u: "used = (gl - l1) - refund"
    by (auto simp: applyRefund_def Let_def q_def refund_def split: if_splits)
  show r: "refund = min raw ((gl - l1) div q)"
    by (simp add: refund_def GasToRefund_def)
  have "refund \<le> (gl - l1) div q"
    unfolding r by simp
  then show b: "unat refund \<le> unat (gl - l1) div unat q"
    by (simp add: word_le_nat_alt unat_div)
  show s: "unat (gl - l1) = unat gl - unat l1"
    using le by (simp add: unat_sub)
  have rb: "unat refund \<le> unat (gl - l1)"
    using b div_le_dividend le_trans by blast
  have "unat l1 \<le> unat gl" using le by (simp add: word_le_nat_alt)
  moreover have "unat gl < 2 ^ 64" using unsigned_less [of gl] by simp
  ultimately have "unat l1 + unat refund < 2 ^ LENGTH(64)"
    using rb s by simp
  then show "unat l2 = unat l1 + unat refund"
    unfolding l2 using unat_add_lem [of l1 refund] by simp
  have "refund \<le> gl - l1" using rb by (simp add: word_le_nat_alt)
  then show "unat used = unat (gl - l1) - unat refund"
    unfolding u by (simp add: unat_sub)
qed

text \<open>Decimals: the product with an integer is exact, truncation is within one unit.\<close>

lemma roundNonNeg_mult: "roundNonNeg (x * precisionReuse) = x"
  by (simp add: roundNonNeg_def precisionReuse_def)

lemma chop_round_exact: "chopPrecisionAndRound (NewDec g * m) = g * m"
proof -
  have e: "NewDec g * m = (g * m) * precisionReuse" by (simp add: NewDec_def algebra_simps)
  have n: "- ((g * m) * precisionReuse) = (- (g * m)) * precisionReuse" by simp
  have p: "0 < precisionReuse" by (simp add: precisionReuse_def)
  have "(g * m) * precisionReuse < 0 \<longleftrightarrow> g * m < 0"
    using p by (simp add: mult_less_0_iff)
  then show ?thesis
    unfolding e chopPrecisionAndRound_def n roundNonNeg_mult by simp
qed

lemma dec_Mul_NewDec:
  "dec_Mul (NewDec g) m = Inr r \<Longrightarrow> r = g * m"
  by (auto simp: dec_Mul_def Let_def chop_round_exact split: if_splits)

lemma int_div_mult_le: "0 < (b::int) \<Longrightarrow> (a div b) * b \<le> a"
  using div_mult_mod_eq [of a b] pos_mod_sign [of b a] by linarith

lemma TruncateInt_NewDec: "TruncateInt (NewDec x) = x"
proof -
  have p: "0 < precisionReuse" by (simp add: precisionReuse_def)
  have n: "(- (x * precisionReuse)) div precisionReuse = - x"
    using p nonzero_mult_div_cancel_right [of precisionReuse "- x"] by simp
  show ?thesis
    unfolding TruncateInt_def chopPrecisionAndTruncate_def NewDec_def
    using p n by simp
qed

lemma TruncateInt_lower: "d - precisionReuse < NewDec (TruncateInt d)"
proof -
  have p: "0 < precisionReuse" by (simp add: precisionReuse_def)
  have neg: "d - precisionReuse < NewDec (TruncateInt d)" if "d < 0"
  proof -
    have "((- d) div precisionReuse) * precisionReuse \<le> - d"
      using p by (rule int_div_mult_le)
    then show ?thesis using that p
      by (simp add: TruncateInt_def chopPrecisionAndTruncate_def NewDec_def)
  qed
  have pos: "d - precisionReuse < NewDec (TruncateInt d)" if "\<not> d < 0"
  proof -
    have "d = (d div precisionReuse) * precisionReuse + d mod precisionReuse" by simp
    moreover have "d mod precisionReuse < precisionReuse" using p by simp
    ultimately have "d - precisionReuse < (d div precisionReuse) * precisionReuse" by linarith
    then show ?thesis using that
      by (simp add: TruncateInt_def chopPrecisionAndTruncate_def NewDec_def)
  qed
  show ?thesis using neg pos by blast
qed

lemma Int_Uint64_Inr: "Int_Uint64 i = Inr w \<Longrightarrow> uint w = i"
  by (auto simp: Int_Uint64_def uint_word_of_int take_bit_eq_mod split: if_splits)

lemma chargeMinimumGas_Inr:
  assumes "chargeMinimumGas m gl l used = Inr (gasUsed, l3)"
  shows "l3 = gl - gasUsed"
    and "uint gasUsed = TruncateInt (max (sint gl * m) (NewDec (sint used)))"
    and "sint gl * m - precisionReuse < NewDec (uint gasUsed)"
    and "sint gl * m \<le> NewDec (sint used) \<Longrightarrow> gasUsed = used"
proof -
  from assms obtain r where r: "dec_Mul (NewDec (sint gl)) m = Inr r"
    and u: "Int_Uint64 (TruncateInt (MaxDec r (NewDec (sint used)))) = Inr gasUsed"
    and l: "l3 = gl - gasUsed"
    by (auto simp: chargeMinimumGas_def Let_def split: sum.splits if_splits)
  have r': "r = sint gl * m" using r by (rule dec_Mul_NewDec)
  have mx: "MaxDec r (NewDec (sint used)) = max (sint gl * m) (NewDec (sint used))"
    by (simp add: MaxDec_def r' max_def)
  show "l3 = gl - gasUsed" by (rule l)
  show t: "uint gasUsed = TruncateInt (max (sint gl * m) (NewDec (sint used)))"
    using Int_Uint64_Inr [OF u] mx by simp
  have "max (sint gl * m) (NewDec (sint used)) - precisionReuse < NewDec (uint gasUsed)"
    unfolding t by (rule TruncateInt_lower)
  then show "sint gl * m - precisionReuse < NewDec (uint gasUsed)" by simp
  assume "sint gl * m \<le> NewDec (sint used)"
  then have "uint gasUsed = sint used"
    unfolding t by (simp add: max_def TruncateInt_NewDec)
  then have "(word_of_int (uint gasUsed) :: uint64) = word_of_int (sint used)" by simp
  then show "gasUsed = used" by simp
qed

lemma executeMessage_create:
  assumes "msg_To msg = None"
    and "executeMessage k evm stateDB msg gas = ((ret, gas', vmErr), db)"
  shows "db_nonce db (msg_From msg) = msg_Nonce msg + 1"
    and "\<exists>addr db1.
           evm_Create k evm (SetNonce stateDB (msg_From msg) (msg_Nonce msg))
             (msg_From msg) (msg_Data msg) gas (msg_Value msg) = ((ret, addr, gas', vmErr), db1) \<and>
           db = SetNonce db1 (msg_From msg) (msg_Nonce msg + 1)"
  using assms
  by (auto simp: executeMessage_def Let_def SetNonce_def split: prod.splits)

lemma sint_eq_uint_small:
  fixes w :: uint64
  assumes "unat w < 2 ^ 63"
  shows "sint w = uint w"
proof -
  from assms have "int (unat w) < int (2 ^ 63)" by (simp only: of_nat_less_iff)
  then have "uint w < 2 ^ 63" by simp
  moreover have "- (2 ^ 63) \<le> uint w" by (simp add: order_trans [of _ 0])
  ultimately have "signed_take_bit 63 (uint w) = uint w"
    by (rule signed_take_bit_int_eq_self [rotated])
  then show ?thesis by (simp add: sint_uint)
qed

text \<open>The converse of \<open>amwc_success\<close>: how a run is put together from its steps.\<close>

lemma amwc_run:
  assumes "EnableCreate (Params cfg) \<or> msg_To msg \<noteq> None"
    and "EnableCall (Params cfg) \<or> msg_To msg = None"
    and "GetEthIntrinsicGas k ctx msg (ChainConfig cfg) (msg_To msg = None) = Inr ig"
    and "ig \<le> msg_GasLimit msg"
    and "executeMessage k (NewEVM k ctx msg cfg tracer)
        (prepareAccessList k ctx msg cfg (states_New k ctx txConfig)) msg (msg_GasLimit msg - ig)
       = ((ret, gasA, vmErr), db)"
    and "applyRefund (IsLondon (ChainConfig cfg) (sint (BlockHeight ctx))) (msg_GasLimit msg) gasA
        (GetRefund db) = Inr (gasB, used)"
    and "(if commit then commitStateDB k db ctx else (None, ctx)) = (None, ctx1)"
    and "chargeMinimumGas (GetMinGasMultiplier k ctx1) (msg_GasLimit msg) gasB used = Inr (gasUsed, gasC)"
  shows "ApplyMessageWithConfig k ctx msg tracer commit cfg txConfig =
     (Inr \<lparr>res_Hash = Hex k (TxHash txConfig),
            res_Logs = NewLogsFromEth k (db_logs db),
            res_Ret = ret,
            res_VmError = (case vmErr of None \<Rightarrow> [] | Some e \<Rightarrow> e),
            res_GasUsed = gasUsed,
            res_CumulativeGasUsed = 0\<rparr>, ctx1)"
proof -
  have n: "\<not> msg_GasLimit msg < ig" using assms(4) by simp
  have b: "bc_BlockNumber (ev_Context (NewEVM k ctx msg cfg tracer)) = sint (BlockHeight ctx)"
    by (simp add: NewEVM_def Let_def)
  show ?thesis
    unfolding ApplyMessageWithConfig_def Let_def b
    using assms(1,2) n
    by (auto simp: assms(3) assms(5) assms(6) assms(7) assms(8))
qed

lemma chargeMinimumGas_run:
  assumes "dec_Mul (NewDec (sint gl)) m = Inr mg"
    and "\<not> gl < l"
    and "Int_Uint64 (TruncateInt (MaxDec mg (NewDec (sint used)))) = Inr gasUsed"
  shows "chargeMinimumGas m gl l used = Inr (gasUsed, gl - gasUsed)"
  using assms by (simp add: chargeMinimumGas_def Let_def)

text \<open>\<open>ApplyMessageWithConfig\<close> writes nothing but the persistent ledger.\<close>

lemma commitStateDB_ctx:
  "commitStateDB k db ctx = (e, c) \<Longrightarrow>
     \<exists>s. c = ctx\<lparr>MultiStore := (MultiStore ctx)\<lparr>persistent := s\<rparr>\<rparr>"
  by (auto simp: commitStateDB_def Let_def split: prod.splits)

lemma amwc_ctx:
  assumes "ApplyMessageWithConfig k ctx msg tracer commit cfg txConfig = (r, ctx')"
  shows "\<exists>s. ctx' = ctx\<lparr>MultiStore := (MultiStore ctx)\<lparr>persistent := s\<rparr>\<rparr>"
proof -
  have self: "ctx = ctx\<lparr>MultiStore := (MultiStore ctx)\<lparr>persistent := persistent (MultiStore ctx)\<rparr>\<rparr>"
    by simp
  have "ctx' = ctx \<or> (\<exists>db e. commitStateDB k db ctx = (e, ctx'))"
    using assms
    unfolding ApplyMessageWithConfig_def Let_def
    by (auto split: if_splits sum.splits prod.splits option.splits)
  then show ?thesis using self commitStateDB_ctx by metis
qed

text \<open>What a successful run of \<open>ApplyTransaction\<close> went through, and the converse.\<close>

lemma ApplyTransaction_Inr:
  assumes "ApplyTransaction k ctx tx = (Inr (res, receipt), ctx')"
  shows "\<exists>evmConfig msg res0 tmpCtx.
     EVMConfig k ctx (hdr_ProposerAddress (BlockHeader ctx)) (eip155ChainID k) = Inr evmConfig \<and>
     TransactionToMessage k tx
        (MakeSigner (ChainConfig evmConfig) (sint (BlockHeight ctx)) (hdr_Time (BlockHeader ctx)))
        (BaseFee evmConfig) = Inr msg \<and>
     ApplyMessageWithConfig k (CacheContext ctx) msg None True evmConfig
        (TxConfig k ctx (tx_Hash tx) (tx_Type tx)) = (Inr res0, tmpCtx) \<and>
     finishTransaction k ctx tmpCtx tx msg evmConfig (TxConfig k ctx (tx_Hash tx) (tx_Type tx)) res0
        = (Inr (res, receipt), ctx')"
  using assms
  unfolding ApplyTransaction_def Let_def
  by (auto split: sum.splits prod.splits)

lemma ApplyTransaction_run:
  assumes "EVMConfig k ctx (hdr_ProposerAddress (BlockHeader ctx)) (eip155ChainID k) = Inr evmConfig"
    and "TransactionToMessage k tx
        (MakeSigner (ChainConfig evmConfig) (sint (BlockHeight ctx)) (hdr_Time (BlockHeader ctx)))
        (BaseFee evmConfig) = Inr msg"
    and "ApplyMessageWithConfig k (CacheContext ctx) msg None True evmConfig
        (TxConfig k ctx (tx_Hash tx) (tx_Type tx)) = (Inr res0, tmpCtx)"
    and "finishTransaction k ctx tmpCtx tx msg evmConfig (TxConfig k ctx (tx_Hash tx) (tx_Type tx)) res0
        = R"
  shows "ApplyTransaction k ctx tx = R"
  using assms
  unfolding ApplyTransaction_def Let_def
  by simp

lemma finishTransaction_Inr:
  assumes "finishTransaction k ctx tmpCtx tx msg evmConfig txConfig res0 = (Inr (res, receipt), ctx')"
  defines "base \<equiv> (if Failed res0 then ctx
                    else ctx\<lparr>MultiStore := MultiStore tmpCtx,
                             EventManager := EventManager ctx @ EventManager tmpCtx\<rparr>)"
  shows "rc_Logs receipt = LogsToEthereum k (res_Logs res0)"
    and "receiptBloom k ctx (rc_Logs receipt) = Inr (rc_Bloom receipt)"
    and "res_CumulativeGasUsed res = cumulativeGas ctx (res_GasUsed res0)"
    and "rc_CumulativeGasUsed receipt = cumulativeGas ctx (res_GasUsed res0)"
    and "res_GasUsed res = res_GasUsed res0"
    and "res_VmError res = res_VmError res0"
    and "rc_Status receipt = (if Failed res0 then ReceiptStatusFailed else ReceiptStatusSuccessful)"
    and "RefundGas k base msg (msg_GasLimit msg - res_GasUsed res0) (EvmDenom (Params evmConfig))
           = (None, persistent (MultiStore ctx'))"
    and "EventManager ctx' = EventManager base"
    and "TxIndexTransient (transient (MultiStore ctx')) = TxIndex txConfig + 1"
    and "TransientGasUsed (transient (MultiStore ctx')) =
           TransientGasUsed (transient (MultiStore base)) + res_GasUsed res0"
    and "res_GasUsed res0 \<le> TransientGasUsed (transient (MultiStore ctx'))"
    and "GasMeterConsumed ctx' = TransientGasUsed (transient (MultiStore ctx'))"
    and "BlockBloomTransient (transient (MultiStore ctx')) =
           (if rc_Logs receipt = [] then BlockBloomTransient (transient (MultiStore base))
            else rc_Bloom receipt)"
    and "LogSizeTransient (transient (MultiStore ctx')) =
           (if rc_Logs receipt = [] then LogSizeTransient (transient (MultiStore base))
            else LogIndex txConfig + of_nat (length (rc_Logs receipt)))"
  using assms(1)
  unfolding finishTransaction_def Let_def base_def
  by (auto split: sum.splits prod.splits option.splits if_splits
      simp: Failed_def transient_defs Let_def)

subsection \<open>The instance, run\<close>

lemma demo_limit: "msg_GasLimit demo_call = 100001" "msg_GasLimit demo_create = 100001"
  by (simp_all add: demo_vals demo_message_def)

lemma demo_multiplier: "GetMinGasMultiplier demo_keeper ctx = 5 * 10 ^ 17"
  by (simp add: demo_keeper_def)

lemma demo_floor:
  "dec_Mul (NewDec (sint (100001 :: uint64))) (5 * 10 ^ 17) = Inr 50000500000000000000000"
  by (simp add: amwc_defs Let_def)

lemma demo_execute_call:
  "executeMessage demo_keeper (NewEVM demo_keeper demo_ctx demo_call demo_evm_config None)
     (prepareAccessList demo_keeper demo_ctx demo_call demo_evm_config
        (states_New demo_keeper demo_ctx demo_tx_config))
     demo_call (msg_GasLimit demo_call - 21000) = (([1, 1], 77001, None), demo_call_db)"
  by (simp add: demo_defs demo_vals amwc_defs Let_def)

lemma demo_execute_create:
  "executeMessage demo_keeper (NewEVM demo_keeper demo_ctx_later demo_create demo_evm_config None)
     (prepareAccessList demo_keeper demo_ctx_later demo_create demo_evm_config
        (states_New demo_keeper demo_ctx_later demo_tx_config_later))
     demo_create (msg_GasLimit demo_create - 53000) =
     (([255], 46001, Some ''execution reverted''), demo_create_db)"
  by (simp add: demo_defs demo_vals amwc_defs Let_def)

lemma demo_refund_call:
  "applyRefund (IsLondon (ChainConfig demo_evm_config) (sint (BlockHeight demo_ctx)))
     (msg_GasLimit demo_call) 77001 (GetRefund demo_call_db) = Inr (88501, 11500)"
  by (simp add: demo_defs demo_vals amwc_defs Let_def)

lemma demo_charge_call:
  "chargeMinimumGas (GetMinGasMultiplier demo_keeper demo_call_snapshot) (msg_GasLimit demo_call)
     88501 11500 = Inr (50000, 50001)"
proof -
  have "chargeMinimumGas (5 * 10 ^ 17) 100001 88501 11500 = Inr (50000, 100001 - 50000)"
    by (rule chargeMinimumGas_run [OF demo_floor]) (simp_all add: amwc_defs)
  then show ?thesis by (simp add: demo_limit demo_multiplier)
qed

lemma demo_charge_create:
  "chargeMinimumGas (GetMinGasMultiplier demo_keeper demo_create_snapshot) (msg_GasLimit demo_create)
     46001 54000 = Inr (54000, 46001)"
proof -
  have "chargeMinimumGas (5 * 10 ^ 17) 100001 46001 54000 = Inr (54000, 100001 - 54000)"
    by (rule chargeMinimumGas_run [OF demo_floor]) (simp_all add: amwc_defs)
  then show ?thesis by (simp add: demo_limit demo_multiplier)
qed

lemma demo_amwc_call:
  "ApplyMessageWithConfig demo_keeper demo_ctx demo_call None True demo_evm_config demo_tx_config
     = (Inr demo_call_res, demo_call_snapshot)"
proof -
  have "ApplyMessageWithConfig demo_keeper demo_ctx demo_call None True demo_evm_config
          demo_tx_config =
     (Inr \<lparr>res_Hash = Hex demo_keeper (TxHash demo_tx_config),
            res_Logs = NewLogsFromEth demo_keeper (db_logs demo_call_db),
            res_Ret = [1, 1],
            res_VmError = (case None of None \<Rightarrow> [] | Some e \<Rightarrow> e),
            res_GasUsed = 50000,
            res_CumulativeGasUsed = 0\<rparr>, demo_call_snapshot)"
    by (rule amwc_run [where ig = 21000 and gasA = 77001 and gasB = 88501 and used = 11500
          and gasC = 50001, OF _ _ _ _ demo_execute_call demo_refund_call _ demo_charge_call])
       (simp_all add: demo_defs demo_vals amwc_defs Let_def)
  then show ?thesis by (simp add: demo_keeper_def demo_tx_config_def demo_vals)
qed

lemma demo_amwc_create:
  "ApplyMessageWithConfig demo_keeper demo_ctx_later demo_create None True demo_evm_config
     demo_tx_config_later = (Inr demo_create_res, demo_create_snapshot)"
proof -
  have "ApplyMessageWithConfig demo_keeper demo_ctx_later demo_create None True demo_evm_config
          demo_tx_config_later =
     (Inr \<lparr>res_Hash = Hex demo_keeper (TxHash demo_tx_config_later),
            res_Logs = NewLogsFromEth demo_keeper (db_logs demo_create_db),
            res_Ret = [255],
            res_VmError = (case Some ''execution reverted'' of None \<Rightarrow> [] | Some e \<Rightarrow> e),
            res_GasUsed = 54000,
            res_CumulativeGasUsed = 0\<rparr>, demo_create_snapshot)"
    by (rule amwc_run [where ig = 53000 and gasA = 46001 and gasB = 46001 and used = 54000
          and gasC = 46001, OF _ _ _ _ demo_execute_create _ _ demo_charge_create])
       (simp_all add: demo_defs demo_vals amwc_defs Let_def)
  then show ?thesis by (simp add: demo_keeper_def demo_tx_config_later_def demo_vals)
qed

lemma demo_finish_call:
  "finishTransaction demo_keeper demo_ctx demo_call_snapshot (demo_tx 0 [1, 1]) demo_call
     demo_evm_config demo_tx_config demo_call_res =
   (Inr (demo_call_res\<lparr>res_CumulativeGasUsed := 110000\<rparr>, demo_call_receipt), demo_call_final)"
  by (simp add: finish_defs demo_defs demo_vals demo_finals Let_def)

lemma demo_finish_create:
  "finishTransaction demo_keeper demo_ctx_later demo_create_snapshot (demo_tx 2 [255]) demo_create
     demo_evm_config demo_tx_config_later demo_create_res =
   (Inr (demo_create_res\<lparr>res_CumulativeGasUsed := 164000\<rparr>, demo_create_receipt),
    demo_create_final)"
  by (simp add: finish_defs demo_defs demo_vals demo_finals Let_def)

lemma demo_cache: "CacheContext demo_ctx = demo_ctx" "CacheContext demo_ctx_later = demo_ctx_later"
  by (simp_all add: CacheContext_def demo_ctx_def demo_ctx_later_def)

lemma demo_txconfig:
  "TxConfig demo_keeper demo_ctx (tx_Hash (demo_tx ty data)) (tx_Type (demo_tx ty data))
     = demo_tx_config"
  "TxConfig demo_keeper demo_ctx_later (tx_Hash (demo_tx ty data)) (tx_Type (demo_tx ty data))
     = demo_tx_config_later"
  by (simp_all add: demo_keeper_def demo_ctx_def demo_ctx_later_def demo_tx_def demo_tx_config_def
        demo_tx_config_later_def)

lemma demo_evmconfig:
  "EVMConfig demo_keeper ctx proposer chainID = Inr demo_evm_config"
  by (simp add: demo_keeper_def)

lemma demo_to_message:
  "TransactionToMessage demo_keeper (demo_tx 0 [1, 1]) signer baseFee = Inr demo_call"
  "TransactionToMessage demo_keeper (demo_tx 2 [255]) signer baseFee = Inr demo_create"
  by (simp_all add: demo_keeper_def demo_call_def demo_create_def)

lemma demo_apply_call:
  "ApplyTransaction demo_keeper demo_ctx (demo_tx 0 [1, 1]) =
   (Inr (demo_call_res\<lparr>res_CumulativeGasUsed := 110000\<rparr>, demo_call_receipt), demo_call_final)"
proof (rule ApplyTransaction_run [OF demo_evmconfig demo_to_message(1)])
  show "ApplyMessageWithConfig demo_keeper (CacheContext demo_ctx) demo_call None True
     demo_evm_config (TxConfig demo_keeper demo_ctx (tx_Hash (demo_tx 0 [1, 1]))
        (tx_Type (demo_tx 0 [1, 1]))) = (Inr demo_call_res, demo_call_snapshot)"
    unfolding demo_cache demo_txconfig by (rule demo_amwc_call)
  show "finishTransaction demo_keeper demo_ctx demo_call_snapshot (demo_tx 0 [1, 1]) demo_call
     demo_evm_config (TxConfig demo_keeper demo_ctx (tx_Hash (demo_tx 0 [1, 1]))
        (tx_Type (demo_tx 0 [1, 1]))) demo_call_res =
    (Inr (demo_call_res\<lparr>res_CumulativeGasUsed := 110000\<rparr>, demo_call_receipt), demo_call_final)"
    unfolding demo_txconfig by (rule demo_finish_call)
qed

lemma demo_apply_create:
  "ApplyTransaction demo_keeper demo_ctx_later (demo_tx 2 [255]) =
   (Inr (demo_create_res\<lparr>res_CumulativeGasUsed := 164000\<rparr>, demo_create_receipt),
    demo_create_final)"
proof (rule ApplyTransaction_run [OF demo_evmconfig demo_to_message(2)])
  show "ApplyMessageWithConfig demo_keeper (CacheContext demo_ctx_later) demo_create None True
     demo_evm_config (TxConfig demo_keeper demo_ctx_later (tx_Hash (demo_tx 2 [255]))
        (tx_Type (demo_tx 2 [255]))) = (Inr demo_create_res, demo_create_snapshot)"
    unfolding demo_cache demo_txconfig by (rule demo_amwc_create)
  show "finishTransaction demo_keeper demo_ctx_later demo_create_snapshot (demo_tx 2 [255])
     demo_create demo_evm_config (TxConfig demo_keeper demo_ctx_later (tx_Hash (demo_tx 2 [255]))
        (tx_Type (demo_tx 2 [255]))) demo_create_res =
    (Inr (demo_create_res\<lparr>res_CumulativeGasUsed := 164000\<rparr>, demo_create_receipt),
     demo_create_final)"
    unfolding demo_txconfig by (rule demo_finish_create)
qed









section \<open>The claims\<close>

text \<open>
  Claim C8.  If the governance flag \<open>EnableCreate\<close> is off and the message is a contract
  creation (no recipient), \<open>ApplyMessageWithConfig\<close> returns \<open>ErrCreateDisabled\<close> (wrapped),
  and if \<open>EnableCall\<close> is off and the message has a recipient it returns \<open>ErrCallDisabled\<close>
  (wrapped).  In both cases the context comes back as it went in, whatever the
  collaborators are: nothing was consulted or written before the rejection.
\<close>

theorem governance_flags_reject:
  "(\<not> EnableCreate (Params cfg) \<and> msg_To msg = None \<longrightarrow>
      ApplyMessageWithConfig k ctx msg tracer commit cfg txConfig =
        (Inl (Wrap ErrCreateDisabled ''failed to create new contract''), ctx)) \<and>
   (\<not> EnableCall (Params cfg) \<and> msg_To msg \<noteq> None \<longrightarrow>
      ApplyMessageWithConfig k ctx msg tracer commit cfg txConfig =
        (Inl (Wrap ErrCallDisabled ''failed to call contract''), ctx))"
  by (simp add: ApplyMessageWithConfig_def)

theorem governance_flags_reject_witness:
  "\<not> EnableCreate (Params demo_disabled_config) \<and>
   msg_To demo_create = None \<and>
   ApplyMessageWithConfig demo_keeper demo_ctx demo_create None True
     demo_disabled_config demo_tx_config =
     (Inl (Wrap ErrCreateDisabled ''failed to create new contract''), demo_ctx) \<and>
   \<not> EnableCall (Params demo_disabled_config) \<and>
   msg_To demo_call \<noteq> None \<and>
   ApplyMessageWithConfig demo_keeper demo_ctx demo_call None True
     demo_disabled_config demo_tx_config =
     (Inl (Wrap ErrCallDisabled ''failed to call contract''), demo_ctx)"
proof -
  have a: "\<not> EnableCreate (Params demo_disabled_config) \<and> msg_To demo_create = None"
    by (simp add: demo_disabled_config_def demo_create_def demo_message_def demo_tx_def)
  have b: "\<not> EnableCall (Params demo_disabled_config) \<and> msg_To demo_call \<noteq> None"
    by (simp add: demo_disabled_config_def demo_call_def demo_message_def demo_tx_def)
  show ?thesis
    using a b
      governance_flags_reject [of demo_disabled_config demo_create
        demo_keeper demo_ctx None True demo_tx_config]
      governance_flags_reject [of demo_disabled_config demo_call
        demo_keeper demo_ctx None True demo_tx_config]
    by simp
qed

text \<open>
  Claim C2.  For a contract creation on which \<open>ApplyMessageWithConfig\<close> returns a response:
  the \<open>StateDB\<close> handed to the virtual machine's \<open>Create\<close> has the sender's nonce set to the
  nonce of the message; the \<open>StateDB\<close> left by the execution has the sender's nonce equal to
  the message nonce plus one (in \<open>uint64\<close> arithmetic), whatever \<open>Create\<close> did and whether
  or not it reported an error; and when \<open>commit\<close> is set this is the \<open>StateDB\<close> that was
  committed into the ledger of the returned context.
\<close>

theorem creation_nonce_forced:
  assumes "msg_To msg = None"
    and "ApplyMessageWithConfig k ctx msg tracer commit cfg txConfig = (Inr res, ctx')"
  shows "\<exists>ig ret gas' vmErr db.
      GetEthIntrinsicGas k ctx msg (ChainConfig cfg) True = Inr ig \<and>
      executeMessage k (NewEVM k ctx msg cfg tracer)
        (prepareAccessList k ctx msg cfg (states_New k ctx txConfig)) msg (msg_GasLimit msg - ig)
        = ((ret, gas', vmErr), db) \<and>
      (\<exists>addr db1.
         evm_Create k (NewEVM k ctx msg cfg tracer)
           (SetNonce (prepareAccessList k ctx msg cfg (states_New k ctx txConfig))
              (msg_From msg) (msg_Nonce msg))
           (msg_From msg) (msg_Data msg) (msg_GasLimit msg - ig) (msg_Value msg)
           = ((ret, addr, gas', vmErr), db1) \<and>
         db = SetNonce db1 (msg_From msg) (msg_Nonce msg + 1)) \<and>
      db_nonce (SetNonce (prepareAccessList k ctx msg cfg (states_New k ctx txConfig))
              (msg_From msg) (msg_Nonce msg)) (msg_From msg) = msg_Nonce msg \<and>
      db_nonce db (msg_From msg) = msg_Nonce msg + 1 \<and>
      res_VmError res = (case vmErr of None \<Rightarrow> [] | Some e \<Rightarrow> e) \<and>
      (if commit
       then Commit k db (persistent (MultiStore ctx)) = (None, persistent (MultiStore ctx'))
       else ctx' = ctx)"
proof -
  from amwc_success [OF assms(2)] obtain ig ret l1 vmErr db l2 used gasUsed l3 where
    ig: "GetEthIntrinsicGas k ctx msg (ChainConfig cfg) (msg_To msg = None) = Inr ig"
    and ex: "executeMessage k (NewEVM k ctx msg cfg tracer)
        (prepareAccessList k ctx msg cfg (states_New k ctx txConfig)) msg (msg_GasLimit msg - ig)
       = ((ret, l1, vmErr), db)"
    and cm: "if commit then commitStateDB k db ctx = (None, ctx') else ctx' = ctx"
    and res: "res = \<lparr>res_Hash = Hex k (TxHash txConfig),
            res_Logs = NewLogsFromEth k (db_logs db),
            res_Ret = ret,
            res_VmError = (case vmErr of None \<Rightarrow> [] | Some e \<Rightarrow> e),
            res_GasUsed = gasUsed,
            res_CumulativeGasUsed = 0\<rparr>"
    by blast
  have c: "if commit
       then Commit k db (persistent (MultiStore ctx)) = (None, persistent (MultiStore ctx'))
       else ctx' = ctx"
    using cm by (auto simp: commitStateDB_def Let_def split: prod.splits if_splits)
  have n0: "db_nonce (SetNonce (prepareAccessList k ctx msg cfg (states_New k ctx txConfig))
              (msg_From msg) (msg_Nonce msg)) (msg_From msg) = msg_Nonce msg"
    by (simp add: SetNonce_def)
  from ig assms(1) have ig': "GetEthIntrinsicGas k ctx msg (ChainConfig cfg) True = Inr ig"
    by simp
  have v: "res_VmError res = (case vmErr of None \<Rightarrow> [] | Some e \<Rightarrow> e)"
    using res by simp
  show ?thesis
    apply (rule exI [of _ ig], rule exI [of _ ret], rule exI [of _ l1], rule exI [of _ vmErr])
    apply (rule exI [of _ db])
    using ig' ex executeMessage_create(2) [OF assms(1) ex] n0
      executeMessage_create(1) [OF assms(1) ex] v c
    by (intro conjI) assumption+
qed

theorem creation_nonce_forced_witness:
  "msg_To demo_create = None \<and>
   ApplyMessageWithConfig demo_keeper demo_ctx_later demo_create None True demo_evm_config
     demo_tx_config_later = (Inr demo_create_res, demo_create_snapshot) \<and>
   res_VmError demo_create_res = ''execution reverted'' \<and>
   msg_Nonce demo_create = 7 \<and>
   persistent (MultiStore demo_create_snapshot) = (8, 50998) \<and>
   (\<exists>ret gas' vmErr db.
      executeMessage demo_keeper
        (NewEVM demo_keeper demo_ctx_later demo_create demo_evm_config None)
        (prepareAccessList demo_keeper demo_ctx_later demo_create demo_evm_config
           (states_New demo_keeper demo_ctx_later demo_tx_config_later))
        demo_create (msg_GasLimit demo_create - 53000) = ((ret, gas', vmErr), db) \<and>
      db_nonce db (msg_From demo_create) = 8 \<and>
      Commit demo_keeper db (persistent (MultiStore demo_ctx_later))
        = (None, persistent (MultiStore demo_create_snapshot)))"
proof -
  have h1: "msg_To demo_create = None"
    by (simp add: demo_create_def demo_message_def demo_tx_def)
  note h2 = demo_amwc_create
  have ig: "GetEthIntrinsicGas demo_keeper demo_ctx_later demo_create
     (ChainConfig demo_evm_config) True = Inr 53000"
    by (simp add: demo_keeper_def)
  have n: "msg_Nonce demo_create = 7"
    by (simp add: demo_create_def demo_message_def)
  have v: "res_VmError demo_create_res = ''execution reverted''"
    by (simp add: demo_create_res_def)
  have p: "persistent (MultiStore demo_create_snapshot) = (8, 50998)"
    by (simp add: demo_create_snapshot_def)
  from creation_nonce_forced [OF h1 h2] ig n
  have "\<exists>ret gas' vmErr db.
      executeMessage demo_keeper
        (NewEVM demo_keeper demo_ctx_later demo_create demo_evm_config None)
        (prepareAccessList demo_keeper demo_ctx_later demo_create demo_evm_config
           (states_New demo_keeper demo_ctx_later demo_tx_config_later))
        demo_create (msg_GasLimit demo_create - 53000) = ((ret, gas', vmErr), db) \<and>
      db_nonce db (msg_From demo_create) = 8 \<and>
      Commit demo_keeper db (persistent (MultiStore demo_ctx_later))
        = (None, persistent (MultiStore demo_create_snapshot))"
    by auto
  then show ?thesis using h1 h2 v n p by blast
qed

text \<open>
  Claim C3.  In every run of \<open>ApplyMessageWithConfig\<close> that returns a response, the refund
  applied is \<open>min(rawRefundCounter, gasUsedBeforeRefund / quotient)\<close>, where the raw counter
  is \<open>stateDB.GetRefund()\<close> after the execution, the gas used before the refund is the gas
  limit minus the gas the virtual machine left, and the quotient is \<open>RefundQuotientEIP3529\<close>
  (5, the stricter one) when London is active at the block height and \<open>RefundQuotient\<close> (2)
  otherwise.  So the refund never exceeds \<open>gasUsedBeforeRefund / quotient\<close>; it is added to
  the leftover gas and subtracted from the gas used, neither of which wraps around, and the
  results are what the minimum gas charge is computed from.
\<close>

theorem refund_capped:
  assumes "ApplyMessageWithConfig k ctx msg tracer commit cfg txConfig = (Inr res, ctx')"
  shows "\<exists>ig ret leftoverGas vmErr db q used refund.
      GetEthIntrinsicGas k ctx msg (ChainConfig cfg) (msg_To msg = None) = Inr ig \<and>
      executeMessage k (NewEVM k ctx msg cfg tracer)
        (prepareAccessList k ctx msg cfg (states_New k ctx txConfig)) msg (msg_GasLimit msg - ig)
        = ((ret, leftoverGas, vmErr), db) \<and>
      q = (if IsLondon (ChainConfig cfg) (sint (BlockHeight ctx))
           then RefundQuotientEIP3529 else RefundQuotient) \<and>
      RefundQuotient < RefundQuotientEIP3529 \<and>
      leftoverGas \<le> msg_GasLimit msg \<and>
      used = msg_GasLimit msg - leftoverGas \<and>
      unat used = unat (msg_GasLimit msg) - unat leftoverGas \<and>
      refund = GasToRefund (GetRefund db) used q \<and>
      refund = min (db_refund db) (used div q) \<and>
      unat refund \<le> unat used div unat q \<and>
      applyRefund (IsLondon (ChainConfig cfg) (sint (BlockHeight ctx))) (msg_GasLimit msg)
         leftoverGas (GetRefund db) = Inr (leftoverGas + refund, used - refund) \<and>
      unat (leftoverGas + refund) = unat leftoverGas + unat refund \<and>
      unat (used - refund) = unat used - unat refund \<and>
      chargeMinimumGas (GetMinGasMultiplier k ctx') (msg_GasLimit msg)
         (leftoverGas + refund) (used - refund)
        = Inr (res_GasUsed res, msg_GasLimit msg - res_GasUsed res)"
proof -
  from amwc_success [OF assms] obtain ig ret l1 vmErr db l2 used' gasUsed l3 where
    ig: "GetEthIntrinsicGas k ctx msg (ChainConfig cfg) (msg_To msg = None) = Inr ig"
    and ex: "executeMessage k (NewEVM k ctx msg cfg tracer)
        (prepareAccessList k ctx msg cfg (states_New k ctx txConfig)) msg (msg_GasLimit msg - ig)
       = ((ret, l1, vmErr), db)"
    and rf: "applyRefund (IsLondon (ChainConfig cfg) (sint (BlockHeight ctx))) (msg_GasLimit msg)
        l1 (GetRefund db) = Inr (l2, used')"
    and ch: "chargeMinimumGas (GetMinGasMultiplier k ctx') (msg_GasLimit msg) l2 used'
        = Inr (gasUsed, l3)"
    and res: "res = \<lparr>res_Hash = Hex k (TxHash txConfig),
            res_Logs = NewLogsFromEth k (db_logs db),
            res_Ret = ret,
            res_VmError = (case vmErr of None \<Rightarrow> [] | Some e \<Rightarrow> e),
            res_GasUsed = gasUsed,
            res_CumulativeGasUsed = 0\<rparr>"
    by blast
  define q where "q = (if IsLondon (ChainConfig cfg) (sint (BlockHeight ctx))
           then RefundQuotientEIP3529 else RefundQuotient)"
  define used where "used = msg_GasLimit msg - l1"
  define refund where "refund = GasToRefund (GetRefund db) used q"
  note r = applyRefund_Inr [OF rf, folded q_def used_def, folded refund_def]
  have f1: "RefundQuotient < RefundQuotientEIP3529"
    by (simp add: RefundQuotient_def RefundQuotientEIP3529_def)
  have f2: "refund = min (db_refund db) (used div q)"
    by (simp add: refund_def GasToRefund_def GetRefund_def)
  have f3: "applyRefund (IsLondon (ChainConfig cfg) (sint (BlockHeight ctx))) (msg_GasLimit msg)
         l1 (GetRefund db) = Inr (l1 + refund, used - refund)"
    using rf r(2) r(3) by simp
  have f4: "unat (l1 + refund) = unat l1 + unat refund"
    using r(7) r(2) by simp
  have f5: "unat (used - refund) = unat used - unat refund"
    using r(8) r(3) by simp
  have f6: "chargeMinimumGas (GetMinGasMultiplier k ctx') (msg_GasLimit msg)
         (l1 + refund) (used - refund)
        = Inr (res_GasUsed res, msg_GasLimit msg - res_GasUsed res)"
    using ch chargeMinimumGas_Inr(1) [OF ch] r(2) r(3) res by simp
  show ?thesis
    apply (rule exI [of _ ig], rule exI [of _ ret], rule exI [of _ l1], rule exI [of _ vmErr])
    apply (rule exI [of _ db], rule exI [of _ q], rule exI [of _ used], rule exI [of _ refund])
    using ig ex q_def f1 r(1) used_def r(6) refund_def f2 r(5) f3 f4 f5 f6
    by (intro conjI) assumption+
qed

theorem refund_capped_witness:
  "ApplyMessageWithConfig demo_keeper demo_ctx demo_call None True demo_evm_config demo_tx_config
     = (Inr demo_call_res, demo_call_snapshot) \<and>
   (\<exists>q used refund :: uint64.
      q = 2 \<and> used = 23000 \<and> refund = 11500 \<and>
      refund = min (db_refund demo_call_db) (used div q) \<and>
      unat refund \<le> unat used div unat q \<and>
      applyRefund (IsLondon (ChainConfig demo_evm_config) (sint (BlockHeight demo_ctx)))
        (msg_GasLimit demo_call) 77001 (GetRefund demo_call_db)
        = Inr (77001 + refund, used - refund))"
proof -
  note h = demo_amwc_call
  from refund_capped [OF h] obtain ig ret leftoverGas vmErr db and q used refund :: uint64 where
    ig: "GetEthIntrinsicGas demo_keeper demo_ctx demo_call (ChainConfig demo_evm_config)
           (msg_To demo_call = None) = Inr ig"
    and ex: "executeMessage demo_keeper (NewEVM demo_keeper demo_ctx demo_call demo_evm_config None)
        (prepareAccessList demo_keeper demo_ctx demo_call demo_evm_config
           (states_New demo_keeper demo_ctx demo_tx_config)) demo_call (msg_GasLimit demo_call - ig)
        = ((ret, leftoverGas, vmErr), db)"
    and q: "q = (if IsLondon (ChainConfig demo_evm_config) (sint (BlockHeight demo_ctx))
           then RefundQuotientEIP3529 else RefundQuotient)"
    and u: "used = msg_GasLimit demo_call - leftoverGas"
    and r: "refund = min (db_refund db) (used div q)"
    and b: "unat refund \<le> unat used div unat q"
    and a: "applyRefund (IsLondon (ChainConfig demo_evm_config) (sint (BlockHeight demo_ctx)))
         (msg_GasLimit demo_call) leftoverGas (GetRefund db)
         = Inr (leftoverGas + refund, used - refund)"
    by blast
  have "ig = 21000" using ig by (simp add: demo_keeper_def demo_call_def demo_message_def demo_tx_def)
  with ex demo_execute_call have l: "leftoverGas = 77001" and d: "db = demo_call_db" by simp_all
  have q2: "q = 2"
    unfolding q by (simp add: demo_defs IsLondon_def isBlockForked_def RefundQuotient_def)
  have u2: "used = 23000" unfolding u l by (simp add: demo_limit)
  have r2: "refund = 11500" unfolding r d q2 u2 by (simp add: demo_call_db_def)
  show ?thesis using h q2 u2 r2 r b a l d by blast
qed

text \<open>
  Claim C4, as amended.  In every run of \<open>ApplyMessageWithConfig\<close> that returns a response,
  the gas used of the response is \<open>max(gasLimit * minGasMultiplier, gasUsedAfterRefund)\<close>
  truncated to an integer (gas limit and gas used read as \<open>int64\<close>, which is their value
  below \<open>2^63\<close>; the product is exact).  Hence it is more than
  \<open>gasLimit * minGasMultiplier - 1\<close>, that is at least the integer part of the floor; it
  equals the gas used after the refund whenever that is at least the floor; and the
  leftover gas is recomputed as the gas limit minus the gas used.
\<close>

theorem minimum_gas_charge:
  assumes "ApplyMessageWithConfig k ctx msg tracer commit cfg txConfig = (Inr res, ctx')"
  shows "\<exists>ig ret leftoverGas vmErr db leftoverGas2 actualGasUsed minimumGasUsed.
      GetEthIntrinsicGas k ctx msg (ChainConfig cfg) (msg_To msg = None) = Inr ig \<and>
      executeMessage k (NewEVM k ctx msg cfg tracer)
        (prepareAccessList k ctx msg cfg (states_New k ctx txConfig)) msg (msg_GasLimit msg - ig)
        = ((ret, leftoverGas, vmErr), db) \<and>
      applyRefund (IsLondon (ChainConfig cfg) (sint (BlockHeight ctx))) (msg_GasLimit msg)
         leftoverGas (GetRefund db) = Inr (leftoverGas2, actualGasUsed) \<and>
      chargeMinimumGas (GetMinGasMultiplier k ctx') (msg_GasLimit msg) leftoverGas2 actualGasUsed
        = Inr (res_GasUsed res, msg_GasLimit msg - res_GasUsed res) \<and>
      minimumGasUsed = sint (msg_GasLimit msg) * GetMinGasMultiplier k ctx' \<and>
      dec_Mul (NewDec (sint (msg_GasLimit msg))) (GetMinGasMultiplier k ctx') = Inr minimumGasUsed \<and>
      uint (res_GasUsed res) = TruncateInt (max minimumGasUsed (NewDec (sint actualGasUsed))) \<and>
      minimumGasUsed - precisionReuse < NewDec (uint (res_GasUsed res)) \<and>
      (minimumGasUsed \<le> NewDec (sint actualGasUsed) \<longrightarrow> res_GasUsed res = actualGasUsed) \<and>
      (unat (msg_GasLimit msg) < 2 ^ 63 \<longrightarrow>
         sint (msg_GasLimit msg) = uint (msg_GasLimit msg) \<and>
         sint actualGasUsed = uint actualGasUsed)"
proof -
  from amwc_success [OF assms] obtain ig ret l1 vmErr db l2 used gasUsed l3 where
    ig: "GetEthIntrinsicGas k ctx msg (ChainConfig cfg) (msg_To msg = None) = Inr ig"
    and ex: "executeMessage k (NewEVM k ctx msg cfg tracer)
        (prepareAccessList k ctx msg cfg (states_New k ctx txConfig)) msg (msg_GasLimit msg - ig)
       = ((ret, l1, vmErr), db)"
    and rf: "applyRefund (IsLondon (ChainConfig cfg) (sint (BlockHeight ctx))) (msg_GasLimit msg)
        l1 (GetRefund db) = Inr (l2, used)"
    and ch: "chargeMinimumGas (GetMinGasMultiplier k ctx') (msg_GasLimit msg) l2 used
        = Inr (gasUsed, l3)"
    and res: "res = \<lparr>res_Hash = Hex k (TxHash txConfig),
            res_Logs = NewLogsFromEth k (db_logs db),
            res_Ret = ret,
            res_VmError = (case vmErr of None \<Rightarrow> [] | Some e \<Rightarrow> e),
            res_GasUsed = gasUsed,
            res_CumulativeGasUsed = 0\<rparr>"
    by blast
  define m where "m = sint (msg_GasLimit msg) * GetMinGasMultiplier k ctx'"
  have g: "gasUsed = res_GasUsed res" using res by simp
  note c = chargeMinimumGas_Inr [OF ch [unfolded g], folded m_def]
  have f1: "chargeMinimumGas (GetMinGasMultiplier k ctx') (msg_GasLimit msg) l2 used
        = Inr (res_GasUsed res, msg_GasLimit msg - res_GasUsed res)"
    using ch c(1) g by simp
  obtain r where r: "dec_Mul (NewDec (sint (msg_GasLimit msg))) (GetMinGasMultiplier k ctx') = Inr r"
    using ch by (auto simp: chargeMinimumGas_def Let_def split: sum.splits)
  have f2: "dec_Mul (NewDec (sint (msg_GasLimit msg))) (GetMinGasMultiplier k ctx') = Inr m"
    using r dec_Mul_NewDec [OF r] by (simp add: m_def)
  have f3: "m \<le> NewDec (sint used) \<longrightarrow> res_GasUsed res = used"
    using c(4) by blast
  note ar = applyRefund_Inr [OF rf]
  have f4: "unat (msg_GasLimit msg) < 2 ^ 63 \<longrightarrow>
         sint (msg_GasLimit msg) = uint (msg_GasLimit msg) \<and> sint used = uint used"
  proof
    assume a: "unat (msg_GasLimit msg) < 2 ^ 63"
    have "unat used \<le> unat (msg_GasLimit msg - l1)" using ar(8) by simp
    also have "\<dots> \<le> unat (msg_GasLimit msg)" using ar(6) by simp
    finally have "unat used < 2 ^ 63" using a by simp
    then show "sint (msg_GasLimit msg) = uint (msg_GasLimit msg) \<and> sint used = uint used"
      using a by (simp add: sint_eq_uint_small)
  qed
  show ?thesis
    apply (rule exI [of _ ig], rule exI [of _ ret], rule exI [of _ l1], rule exI [of _ vmErr])
    apply (rule exI [of _ db], rule exI [of _ l2], rule exI [of _ used], rule exI [of _ m])
    using ig ex rf f1 m_def f2 c(2) c(3) f3 f4
    by (intro conjI) assumption+
qed

lemma demo_refund_create:
  "applyRefund (IsLondon (ChainConfig demo_evm_config) (sint (BlockHeight demo_ctx_later)))
     (msg_GasLimit demo_create) 46001 (GetRefund demo_create_db) = Inr (46001, 54000)"
  by (simp add: demo_defs demo_vals amwc_defs Let_def)

theorem minimum_gas_charge_witness:
  "ApplyMessageWithConfig demo_keeper demo_ctx_later demo_create None True demo_evm_config
     demo_tx_config_later = (Inr demo_create_res, demo_create_snapshot) \<and>
   (\<exists>actualGasUsed minimumGasUsed.
      actualGasUsed = 54000 \<and>
      minimumGasUsed = 50000500000000000000000 \<and>
      minimumGasUsed \<le> NewDec (sint actualGasUsed) \<and>
      res_GasUsed demo_create_res = actualGasUsed \<and>
      unat (msg_GasLimit demo_create) < 2 ^ 63 \<and>
      sint actualGasUsed = uint actualGasUsed \<and>
      minimumGasUsed - precisionReuse < NewDec (uint (res_GasUsed demo_create_res)))"
proof -
  note h = demo_amwc_create
  from minimum_gas_charge [OF h] obtain ig ret leftoverGas vmErr db leftoverGas2
      and actualGasUsed :: uint64 and minimumGasUsed where
    ig: "GetEthIntrinsicGas demo_keeper demo_ctx_later demo_create (ChainConfig demo_evm_config)
           (msg_To demo_create = None) = Inr ig"
    and ex: "executeMessage demo_keeper
        (NewEVM demo_keeper demo_ctx_later demo_create demo_evm_config None)
        (prepareAccessList demo_keeper demo_ctx_later demo_create demo_evm_config
           (states_New demo_keeper demo_ctx_later demo_tx_config_later)) demo_create
        (msg_GasLimit demo_create - ig) = ((ret, leftoverGas, vmErr), db)"
    and rf: "applyRefund (IsLondon (ChainConfig demo_evm_config) (sint (BlockHeight demo_ctx_later)))
        (msg_GasLimit demo_create) leftoverGas (GetRefund db) = Inr (leftoverGas2, actualGasUsed)"
    and m: "minimumGasUsed =
        sint (msg_GasLimit demo_create) * GetMinGasMultiplier demo_keeper demo_create_snapshot"
    and lo: "minimumGasUsed - precisionReuse < NewDec (uint (res_GasUsed demo_create_res))"
    and eq: "minimumGasUsed \<le> NewDec (sint actualGasUsed) \<longrightarrow>
               res_GasUsed demo_create_res = actualGasUsed"
    and sm: "unat (msg_GasLimit demo_create) < 2 ^ 63 \<longrightarrow>
         sint (msg_GasLimit demo_create) = uint (msg_GasLimit demo_create) \<and>
         sint actualGasUsed = uint actualGasUsed"
    by blast
  have "ig = 53000"
    using ig by (simp add: demo_keeper_def demo_create_def demo_message_def demo_tx_def)
  with ex demo_execute_create have "leftoverGas = 46001" and "db = demo_create_db" by simp_all
  with rf demo_refund_create have a: "actualGasUsed = 54000" by simp
  have m2: "minimumGasUsed = 50000500000000000000000"
    unfolding m by (simp add: demo_limit demo_multiplier)
  have le: "minimumGasUsed \<le> NewDec (sint actualGasUsed)"
    unfolding m2 a by (simp add: NewDec_def precisionReuse_def)
  have s: "unat (msg_GasLimit demo_create) < 2 ^ 63" by (simp add: demo_limit)
  show ?thesis using h a m2 le eq s sm lo by blast
qed

text \<open>
  The claim C4 as stated fails where the floor is not an integer: with gas limit 100001
  and multiplier one half the floor is 50000.5, the gas used after the refund is 11500,
  and the gas used of the response is 50000, which is below the floor.
\<close>

theorem minimum_gas_floor_counterexample:
  "ApplyMessageWithConfig demo_keeper demo_ctx demo_call None True demo_evm_config demo_tx_config
     = (Inr demo_call_res, demo_call_snapshot) \<and>
   dec_Mul (NewDec (sint (msg_GasLimit demo_call)))
     (GetMinGasMultiplier demo_keeper demo_call_snapshot) = Inr 50000500000000000000000 \<and>
   NewDec (uint (res_GasUsed demo_call_res)) < 50000500000000000000000"
proof -
  have a: "dec_Mul (NewDec (sint (msg_GasLimit demo_call)))
     (GetMinGasMultiplier demo_keeper demo_call_snapshot) = Inr 50000500000000000000000"
    using demo_floor by (simp add: demo_limit demo_multiplier)
  have b: "NewDec (uint (res_GasUsed demo_call_res)) < 50000500000000000000000"
    by (simp add: demo_call_res_def NewDec_def precisionReuse_def)
  show ?thesis using demo_amwc_call a b by (intro conjI)
qed

text \<open>Helpers for the claims about \<open>ApplyTransaction\<close>.\<close>

lemma applyTx_transient_base:
  assumes "ApplyMessageWithConfig k (CacheContext ctx) msg tracer commit cfg txConfig = (r, tmpCtx)"
  shows "transient (MultiStore tmpCtx) = transient (MultiStore ctx)"
proof -
  from amwc_ctx [OF assms] obtain s where
    "tmpCtx = (CacheContext ctx)\<lparr>MultiStore := (MultiStore (CacheContext ctx))\<lparr>persistent := s\<rparr>\<rparr>"
    by blast
  then show ?thesis by (simp add: CacheContext_def)
qed






text \<open>
  Claim C1.  When \<open>ApplyTransaction\<close> returns a response, the message was executed on the
  cached context (the snapshot) and exactly one of two things happened, decided by the
  error text of the response.  If it is empty (the receipt status is success), the whole
  multi-store of the snapshot replaced the parent's and its events were emitted.  If it is
  not empty (the VM reported an error, status failed), the parent's stores are the ones it
  had before: nothing of the snapshot reaches it.  In both cases the only further write to
  the ledger is the refund of the unused gas (gas limit minus gas used), so the ledger left
  is the refund applied to either the snapshot's ledger or the untouched parent's, never a
  mixture; and in both cases the response is returned, the gas used is added to the
  transient total and the gas meter is reset to that total.
\<close>

theorem commit_or_discard:
  assumes "ApplyTransaction k ctx tx = (Inr (res, receipt), ctx')"
  shows "\<exists>evmConfig msg res0 tmpCtx.
     EVMConfig k ctx (hdr_ProposerAddress (BlockHeader ctx)) (eip155ChainID k) = Inr evmConfig \<and>
     TransactionToMessage k tx
        (MakeSigner (ChainConfig evmConfig) (sint (BlockHeight ctx)) (hdr_Time (BlockHeader ctx)))
        (BaseFee evmConfig) = Inr msg \<and>
     ApplyMessageWithConfig k (CacheContext ctx) msg None True evmConfig
        (TxConfig k ctx (tx_Hash tx) (tx_Type tx)) = (Inr res0, tmpCtx) \<and>
     res_VmError res = res_VmError res0 \<and>
     res_GasUsed res = res_GasUsed res0 \<and>
     (if res_VmError res = []
      then rc_Status receipt = ReceiptStatusSuccessful \<and>
           RefundGas k
             (ctx\<lparr>MultiStore := MultiStore tmpCtx,
                  EventManager := EventManager ctx @ EventManager tmpCtx\<rparr>)
             msg (msg_GasLimit msg - res_GasUsed res) (EvmDenom (Params evmConfig))
             = (None, persistent (MultiStore ctx'))
      else rc_Status receipt = ReceiptStatusFailed \<and>
           RefundGas k ctx msg (msg_GasLimit msg - res_GasUsed res) (EvmDenom (Params evmConfig))
             = (None, persistent (MultiStore ctx')) \<and>
           EventManager ctx' = EventManager ctx) \<and>
     TransientGasUsed (transient (MultiStore ctx')) =
       TransientGasUsed (transient (MultiStore ctx)) + res_GasUsed res \<and>
     GasMeterConsumed ctx' = TransientGasUsed (transient (MultiStore ctx'))"
proof -
  from ApplyTransaction_Inr [OF assms] obtain evmConfig msg res0 tmpCtx where
    e: "EVMConfig k ctx (hdr_ProposerAddress (BlockHeader ctx)) (eip155ChainID k) = Inr evmConfig"
    and m: "TransactionToMessage k tx
        (MakeSigner (ChainConfig evmConfig) (sint (BlockHeight ctx)) (hdr_Time (BlockHeader ctx)))
        (BaseFee evmConfig) = Inr msg"
    and x: "ApplyMessageWithConfig k (CacheContext ctx) msg None True evmConfig
        (TxConfig k ctx (tx_Hash tx) (tx_Type tx)) = (Inr res0, tmpCtx)"
    and f: "finishTransaction k ctx tmpCtx tx msg evmConfig (TxConfig k ctx (tx_Hash tx) (tx_Type tx)) res0
        = (Inr (res, receipt), ctx')"
    by blast
  note a = finishTransaction_Inr [OF f]
  have t: "transient (MultiStore tmpCtx) = transient (MultiStore ctx)"
    using x by (rule applyTx_transient_base)
  have fl: "Failed res0 \<longleftrightarrow> res_VmError res \<noteq> []"
    using a(6) by (simp add: Failed_def)
  have c: "if res_VmError res = []
      then rc_Status receipt = ReceiptStatusSuccessful \<and>
           RefundGas k
             (ctx\<lparr>MultiStore := MultiStore tmpCtx,
                  EventManager := EventManager ctx @ EventManager tmpCtx\<rparr>)
             msg (msg_GasLimit msg - res_GasUsed res) (EvmDenom (Params evmConfig))
             = (None, persistent (MultiStore ctx'))
      else rc_Status receipt = ReceiptStatusFailed \<and>
           RefundGas k ctx msg (msg_GasLimit msg - res_GasUsed res) (EvmDenom (Params evmConfig))
             = (None, persistent (MultiStore ctx')) \<and>
           EventManager ctx' = EventManager ctx"
    using a(7) a(8) a(9) a(5) fl by (simp split: if_splits)
  have g: "TransientGasUsed (transient (MultiStore ctx')) =
       TransientGasUsed (transient (MultiStore ctx)) + res_GasUsed res"
    using a(11) a(5) t by simp
  show ?thesis
    apply (rule exI [of _ evmConfig], rule exI [of _ msg], rule exI [of _ res0])
    apply (rule exI [of _ tmpCtx])
    using e m x a(6) a(5) c g a(13)
    by (intro conjI) assumption+
qed

theorem commit_or_discard_witness:
  "ApplyTransaction demo_keeper demo_ctx (demo_tx 0 [1, 1]) =
     (Inr (demo_call_res\<lparr>res_CumulativeGasUsed := 110000\<rparr>, demo_call_receipt), demo_call_final) \<and>
   res_VmError demo_call_res = [] \<and>
   rc_Status demo_call_receipt = ReceiptStatusSuccessful \<and>
   persistent (MultiStore demo_ctx) = (0, 1000) \<and>
   persistent (MultiStore demo_call_snapshot) = (0, 998) \<and>
   RefundGas demo_keeper
     (demo_ctx\<lparr>MultiStore := MultiStore demo_call_snapshot,
               EventManager := EventManager demo_ctx @ EventManager demo_call_snapshot\<rparr>)
     demo_call 50001 ''aart'' = (None, persistent (MultiStore demo_call_final)) \<and>
   persistent (MultiStore demo_call_final) = (0, 50999) \<and>
   ApplyTransaction demo_keeper demo_ctx_later (demo_tx 2 [255]) =
     (Inr (demo_create_res\<lparr>res_CumulativeGasUsed := 164000\<rparr>, demo_create_receipt),
      demo_create_final) \<and>
   res_VmError demo_create_res = ''execution reverted'' \<and>
   rc_Status demo_create_receipt = ReceiptStatusFailed \<and>
   persistent (MultiStore demo_ctx_later) = (0, 50999) \<and>
   persistent (MultiStore demo_create_snapshot) = (8, 50998) \<and>
   RefundGas demo_keeper demo_ctx_later demo_create 46001 ''aart''
     = (None, persistent (MultiStore demo_create_final)) \<and>
   persistent (MultiStore demo_create_final) = (0, 97000) \<and>
   TransientGasUsed (transient (MultiStore demo_create_final)) = 54000"
proof -
  have v1: "res_VmError demo_call_res = []" by (simp add: demo_call_res_def)
  have v2: "res_VmError demo_create_res = ''execution reverted''" by (simp add: demo_create_res_def)
  have p: "persistent (MultiStore demo_ctx) = (0, 1000)"
    "persistent (MultiStore demo_call_snapshot) = (0, 998)"
    "persistent (MultiStore demo_call_final) = (0, 50999)"
    "persistent (MultiStore demo_ctx_later) = (0, 50999)"
    "persistent (MultiStore demo_create_snapshot) = (8, 50998)"
    "persistent (MultiStore demo_create_final) = (0, 97000)"
    by (simp_all add: demo_ctx_def demo_call_snapshot_def demo_call_final_def demo_ctx_later_def
          demo_create_snapshot_def demo_create_final_def)
  have d: "EvmDenom (Params demo_evm_config) = ''aart''" by (simp add: demo_evm_config_def)
  have g: "msg_GasLimit demo_call - res_GasUsed (demo_call_res\<lparr>res_CumulativeGasUsed := 110000\<rparr>)
             = 50001"
     "msg_GasLimit demo_create - res_GasUsed (demo_create_res\<lparr>res_CumulativeGasUsed := 164000\<rparr>)
             = 46001"
    by (simp_all add: demo_limit demo_call_res_def demo_create_res_def)
  have t: "TransientGasUsed (transient (MultiStore demo_ctx_later)) = 0"
    by (simp add: demo_ctx_later_def)
  from commit_or_discard [OF demo_apply_call] obtain evmConfig msg res0 tmpCtx where
    a1: "EVMConfig demo_keeper demo_ctx (hdr_ProposerAddress (BlockHeader demo_ctx))
          (eip155ChainID demo_keeper) = Inr evmConfig"
    and a2: "TransactionToMessage demo_keeper (demo_tx 0 [1, 1])
        (MakeSigner (ChainConfig evmConfig) (sint (BlockHeight demo_ctx))
           (hdr_Time (BlockHeader demo_ctx))) (BaseFee evmConfig) = Inr msg"
    and a3: "ApplyMessageWithConfig demo_keeper (CacheContext demo_ctx) msg None True evmConfig
        (TxConfig demo_keeper demo_ctx (tx_Hash (demo_tx 0 [1, 1])) (tx_Type (demo_tx 0 [1, 1])))
        = (Inr res0, tmpCtx)"
    and a4: "if res_VmError (demo_call_res\<lparr>res_CumulativeGasUsed := 110000\<rparr>) = []
      then rc_Status demo_call_receipt = ReceiptStatusSuccessful \<and>
           RefundGas demo_keeper
             (demo_ctx\<lparr>MultiStore := MultiStore tmpCtx,
                  EventManager := EventManager demo_ctx @ EventManager tmpCtx\<rparr>)
             msg (msg_GasLimit msg - res_GasUsed (demo_call_res\<lparr>res_CumulativeGasUsed := 110000\<rparr>))
             (EvmDenom (Params evmConfig))
             = (None, persistent (MultiStore demo_call_final))
      else rc_Status demo_call_receipt = ReceiptStatusFailed \<and>
           RefundGas demo_keeper demo_ctx msg
             (msg_GasLimit msg - res_GasUsed (demo_call_res\<lparr>res_CumulativeGasUsed := 110000\<rparr>))
             (EvmDenom (Params evmConfig))
             = (None, persistent (MultiStore demo_call_final)) \<and>
           EventManager demo_call_final = EventManager demo_ctx"
    by blast
  have e1: "evmConfig = demo_evm_config" using a1 by (simp add: demo_evmconfig)
  have m1: "msg = demo_call" using a2 by (simp add: demo_to_message)
  have s1: "tmpCtx = demo_call_snapshot"
    using a3 demo_amwc_call unfolding e1 m1 demo_cache demo_txconfig by simp
  have c1: "rc_Status demo_call_receipt = ReceiptStatusSuccessful \<and>
     RefundGas demo_keeper
     (demo_ctx\<lparr>MultiStore := MultiStore demo_call_snapshot,
               EventManager := EventManager demo_ctx @ EventManager demo_call_snapshot\<rparr>)
     demo_call 50001 ''aart'' = (None, persistent (MultiStore demo_call_final))"
    using a4 v1 unfolding e1 m1 s1 g d by simp
  from commit_or_discard [OF demo_apply_create] obtain evmConfig' msg' res0' tmpCtx' where
    b1: "EVMConfig demo_keeper demo_ctx_later (hdr_ProposerAddress (BlockHeader demo_ctx_later))
          (eip155ChainID demo_keeper) = Inr evmConfig'"
    and b2: "TransactionToMessage demo_keeper (demo_tx 2 [255])
        (MakeSigner (ChainConfig evmConfig') (sint (BlockHeight demo_ctx_later))
           (hdr_Time (BlockHeader demo_ctx_later))) (BaseFee evmConfig') = Inr msg'"
    and b3: "ApplyMessageWithConfig demo_keeper (CacheContext demo_ctx_later) msg' None True
        evmConfig' (TxConfig demo_keeper demo_ctx_later (tx_Hash (demo_tx 2 [255]))
           (tx_Type (demo_tx 2 [255]))) = (Inr res0', tmpCtx')"
    and b4: "if res_VmError (demo_create_res\<lparr>res_CumulativeGasUsed := 164000\<rparr>) = []
      then rc_Status demo_create_receipt = ReceiptStatusSuccessful \<and>
           RefundGas demo_keeper
             (demo_ctx_later\<lparr>MultiStore := MultiStore tmpCtx',
                  EventManager := EventManager demo_ctx_later @ EventManager tmpCtx'\<rparr>)
             msg' (msg_GasLimit msg' - res_GasUsed (demo_create_res\<lparr>res_CumulativeGasUsed := 164000\<rparr>))
             (EvmDenom (Params evmConfig'))
             = (None, persistent (MultiStore demo_create_final))
      else rc_Status demo_create_receipt = ReceiptStatusFailed \<and>
           RefundGas demo_keeper demo_ctx_later msg'
             (msg_GasLimit msg' - res_GasUsed (demo_create_res\<lparr>res_CumulativeGasUsed := 164000\<rparr>))
             (EvmDenom (Params evmConfig'))
             = (None, persistent (MultiStore demo_create_final)) \<and>
           EventManager demo_create_final = EventManager demo_ctx_later"
    and b5: "TransientGasUsed (transient (MultiStore demo_create_final)) =
       TransientGasUsed (transient (MultiStore demo_ctx_later)) +
       res_GasUsed (demo_create_res\<lparr>res_CumulativeGasUsed := 164000\<rparr>)"
    by blast
  have e2: "evmConfig' = demo_evm_config" using b1 by (simp add: demo_evmconfig)
  have m2: "msg' = demo_create" using b2 by (simp add: demo_to_message)
  have c2: "rc_Status demo_create_receipt = ReceiptStatusFailed \<and>
     RefundGas demo_keeper demo_ctx_later demo_create 46001 ''aart''
       = (None, persistent (MultiStore demo_create_final))"
    using b4 v2 unfolding e2 m2 g d by simp
  have c3: "TransientGasUsed (transient (MultiStore demo_create_final)) = 54000"
    using b5 t by (simp add: demo_create_res_def)
  show ?thesis
    using demo_apply_call v1 c1 p demo_apply_create v2 c2 c3 by (intro conjI) simp_all
qed





text \<open>
  Claim C9.  When \<open>ApplyTransaction\<close> returns a response and the log list of the receipt is
  empty (as for the reverted creation of the instance), the transient block bloom and the
  transient log size are those of before; when it is not empty they are the bloom of the
  receipt and the log index of the transaction plus the number of logs.  In both cases the
  transient transaction index becomes \<open>txIndex + 1\<close>, the gas used is added to the transient
  gas total (without overflow), and the gas meter of the context is reset to that total.
\<close>

theorem transient_updates:
  assumes "ApplyTransaction k ctx tx = (Inr (res, receipt), ctx')"
  shows "(rc_Logs receipt = [] \<longrightarrow>
            BlockBloomTransient (transient (MultiStore ctx')) =
              BlockBloomTransient (transient (MultiStore ctx)) \<and>
            LogSizeTransient (transient (MultiStore ctx')) =
              LogSizeTransient (transient (MultiStore ctx))) \<and>
         (rc_Logs receipt \<noteq> [] \<longrightarrow>
            BlockBloomTransient (transient (MultiStore ctx')) = rc_Bloom receipt \<and>
            LogSizeTransient (transient (MultiStore ctx')) =
              LogIndex (TxConfig k ctx (tx_Hash tx) (tx_Type tx)) + of_nat (length (rc_Logs receipt))) \<and>
         TxIndexTransient (transient (MultiStore ctx')) =
           TxIndex (TxConfig k ctx (tx_Hash tx) (tx_Type tx)) + 1 \<and>
         TransientGasUsed (transient (MultiStore ctx')) =
           TransientGasUsed (transient (MultiStore ctx)) + res_GasUsed res \<and>
         unat (TransientGasUsed (transient (MultiStore ctx'))) =
           unat (TransientGasUsed (transient (MultiStore ctx))) + unat (res_GasUsed res) \<and>
         GasMeterConsumed ctx' = TransientGasUsed (transient (MultiStore ctx'))"
proof -
  from ApplyTransaction_Inr [OF assms] obtain evmConfig msg res0 tmpCtx where
    x: "ApplyMessageWithConfig k (CacheContext ctx) msg None True evmConfig
        (TxConfig k ctx (tx_Hash tx) (tx_Type tx)) = (Inr res0, tmpCtx)"
    and f: "finishTransaction k ctx tmpCtx tx msg evmConfig (TxConfig k ctx (tx_Hash tx) (tx_Type tx)) res0
        = (Inr (res, receipt), ctx')"
    by blast
  note a = finishTransaction_Inr [OF f]
  have t: "transient (MultiStore tmpCtx) = transient (MultiStore ctx)"
    using x by (rule applyTx_transient_base)
  have base: "transient (MultiStore (if Failed res0 then ctx
                    else ctx\<lparr>MultiStore := MultiStore tmpCtx,
                             EventManager := EventManager ctx @ EventManager tmpCtx\<rparr>))
              = transient (MultiStore ctx)"
    using t by simp
  have g: "TransientGasUsed (transient (MultiStore ctx')) =
           TransientGasUsed (transient (MultiStore ctx)) + res_GasUsed res"
    using a(11) a(5) base by simp
  have "res_GasUsed res \<le> res_GasUsed res + TransientGasUsed (transient (MultiStore ctx))"
    using a(12) a(5) g by (simp add: add.commute)
  then have "unat (res_GasUsed res + TransientGasUsed (transient (MultiStore ctx))) =
      unat (res_GasUsed res) + unat (TransientGasUsed (transient (MultiStore ctx)))"
    by (simp only: unat_plus_simple)
  then have u: "unat (TransientGasUsed (transient (MultiStore ctx'))) =
           unat (TransientGasUsed (transient (MultiStore ctx))) + unat (res_GasUsed res)"
    unfolding g by (simp add: add.commute)
  have b1: "rc_Logs receipt = [] \<longrightarrow>
            BlockBloomTransient (transient (MultiStore ctx')) =
              BlockBloomTransient (transient (MultiStore ctx)) \<and>
            LogSizeTransient (transient (MultiStore ctx')) =
              LogSizeTransient (transient (MultiStore ctx))"
    using a(14) a(15) base by simp
  have b2: "rc_Logs receipt \<noteq> [] \<longrightarrow>
            BlockBloomTransient (transient (MultiStore ctx')) = rc_Bloom receipt \<and>
            LogSizeTransient (transient (MultiStore ctx')) =
              LogIndex (TxConfig k ctx (tx_Hash tx) (tx_Type tx)) + of_nat (length (rc_Logs receipt))"
    using a(14) a(15) by simp
  show ?thesis using b1 b2 a(10) g u a(13) by (intro conjI)
qed

theorem transient_updates_witness:
  "ApplyTransaction demo_keeper demo_ctx_later (demo_tx 2 [255]) =
     (Inr (demo_create_res\<lparr>res_CumulativeGasUsed := 164000\<rparr>, demo_create_receipt),
      demo_create_final) \<and>
   rc_Logs demo_create_receipt = [] \<and>
   res_VmError demo_create_res = ''execution reverted'' \<and>
   transient (MultiStore demo_ctx_later) =
     \<lparr>BlockBloomTransient = 7, LogSizeTransient = 4, TxIndexTransient = 2, TransientGasUsed = 0\<rparr> \<and>
   BlockBloomTransient (transient (MultiStore demo_create_final)) = 7 \<and>
   LogSizeTransient (transient (MultiStore demo_create_final)) = 4 \<and>
   TxIndexTransient (transient (MultiStore demo_create_final)) = 3 \<and>
   TransientGasUsed (transient (MultiStore demo_create_final)) = 54000 \<and>
   GasMeterConsumed demo_create_final = 54000 \<and>
   ApplyTransaction demo_keeper demo_ctx (demo_tx 0 [1, 1]) =
     (Inr (demo_call_res\<lparr>res_CumulativeGasUsed := 110000\<rparr>, demo_call_receipt), demo_call_final) \<and>
   rc_Logs demo_call_receipt \<noteq> [] \<and>
   BlockBloomTransient (transient (MultiStore demo_call_final)) = rc_Bloom demo_call_receipt \<and>
   LogSizeTransient (transient (MultiStore demo_call_final)) = 4"
proof -
  have e: "rc_Logs demo_create_receipt = []" by (simp add: demo_create_receipt_def)
  have ne: "rc_Logs demo_call_receipt \<noteq> []" by (simp add: demo_call_receipt_def)
  have v: "res_VmError demo_create_res = ''execution reverted''" by (simp add: demo_create_res_def)
  have t: "transient (MultiStore demo_ctx_later) =
     \<lparr>BlockBloomTransient = 7, LogSizeTransient = 4, TxIndexTransient = 2, TransientGasUsed = 0\<rparr>"
    by (simp add: demo_ctx_later_def)
  have g: "res_GasUsed (demo_create_res\<lparr>res_CumulativeGasUsed := 164000\<rparr>) = 54000"
    by (simp add: demo_create_res_def)
  have l: "length (rc_Logs demo_call_receipt) = 2" by (simp add: demo_call_receipt_def)
  from transient_updates [OF demo_apply_create] e t g
  have c: "BlockBloomTransient (transient (MultiStore demo_create_final)) = 7 \<and>
   LogSizeTransient (transient (MultiStore demo_create_final)) = 4 \<and>
   TxIndexTransient (transient (MultiStore demo_create_final)) = 3 \<and>
   TransientGasUsed (transient (MultiStore demo_create_final)) = 54000 \<and>
   GasMeterConsumed demo_create_final = 54000"
    by (simp add: demo_txconfig demo_tx_config_later_def)
  from transient_updates [OF demo_apply_call] ne l
  have d: "BlockBloomTransient (transient (MultiStore demo_call_final)) = rc_Bloom demo_call_receipt \<and>
   LogSizeTransient (transient (MultiStore demo_call_final)) = 4"
    by (simp add: demo_txconfig demo_tx_config_def)
  show ?thesis using demo_apply_create e v t c demo_apply_call ne d by (intro conjI) simp_all
qed

text \<open>
  Claim C10.  When \<open>ApplyTransaction\<close> returns a response, the bloom stored in the receipt is,
  for a non-empty log list, the transient block bloom accumulated so far OR-ed with the
  bloom of the logs of this transaction (so it includes the logs of the earlier
  transactions of the block), and the zero bloom for an empty log list.
\<close>

theorem receipt_bloom:
  assumes "ApplyTransaction k ctx tx = (Inr (res, receipt), ctx')"
  shows "(rc_Logs receipt \<noteq> [] \<longrightarrow>
            rc_Bloom receipt =
              BlockBloomTransient (transient (MultiStore ctx)) OR
              big_SetBytes (LogsBloom k (rc_Logs receipt))) \<and>
         (rc_Logs receipt = [] \<longrightarrow> rc_Bloom receipt = 0)"
proof -
  from ApplyTransaction_Inr [OF assms] obtain evmConfig msg res0 tmpCtx where
    f: "finishTransaction k ctx tmpCtx tx msg evmConfig (TxConfig k ctx (tx_Hash tx) (tx_Type tx)) res0
        = (Inr (res, receipt), ctx')"
    by blast
  from finishTransaction_Inr(2) [OF f] show ?thesis
    by (auto simp: receiptBloom_def BytesToBloom_def GetBlockBloomTransient_def split: if_splits)
qed

theorem receipt_bloom_witness:
  "ApplyTransaction demo_keeper demo_ctx (demo_tx 0 [1, 1]) =
     (Inr (demo_call_res\<lparr>res_CumulativeGasUsed := 110000\<rparr>, demo_call_receipt), demo_call_final) \<and>
   rc_Logs demo_call_receipt \<noteq> [] \<and>
   BlockBloomTransient (transient (MultiStore demo_ctx)) = 3 \<and>
   big_SetBytes (LogsBloom demo_keeper (rc_Logs demo_call_receipt)) = 4 \<and>
   rc_Bloom demo_call_receipt = 3 OR 4 \<and>
   ApplyTransaction demo_keeper demo_ctx_later (demo_tx 2 [255]) =
     (Inr (demo_create_res\<lparr>res_CumulativeGasUsed := 164000\<rparr>, demo_create_receipt),
      demo_create_final) \<and>
   rc_Logs demo_create_receipt = [] \<and>
   rc_Bloom demo_create_receipt = 0"
proof -
  have e: "rc_Logs demo_create_receipt = []" by (simp add: demo_create_receipt_def)
  have ne: "rc_Logs demo_call_receipt \<noteq> []" by (simp add: demo_call_receipt_def)
  have t: "BlockBloomTransient (transient (MultiStore demo_ctx)) = 3" by (simp add: demo_ctx_def)
  have b: "big_SetBytes (LogsBloom demo_keeper (rc_Logs demo_call_receipt)) = 4"
    by (simp add: demo_keeper_def big_SetBytes_def)
  from receipt_bloom [OF demo_apply_call] ne t b
  have c: "rc_Bloom demo_call_receipt = 3 OR 4" by simp
  from receipt_bloom [OF demo_apply_create] e
  have d: "rc_Bloom demo_create_receipt = 0" by simp
  show ?thesis using demo_apply_call ne t b c demo_apply_create e d by (intro conjI)
qed


text \<open>Helpers for the claim about \<open>GetHashFn\<close>.\<close>

lemma BytesToHash_drop:
  "BytesToHash b = replicate (32 - length (drop (length b - 32) b)) 0 @ drop (length b - 32) b"
  by (simp add: BytesToHash_def Let_def)

lemma all_zero_replicate: "(\<forall>x \<in> set xs. x = (0::byte)) \<longleftrightarrow> xs = replicate (length xs) 0"
  by (induction xs) auto

lemma BytesToHash_zero_iff:
  "BytesToHash b = zero_hash \<longleftrightarrow> (\<forall>x \<in> set (drop (length b - 32) b). x = 0)"
proof -
  define c where "c = drop (length b - 32) b"
  have n: "length c \<le> 32" by (simp add: c_def)
  have z: "zero_hash = replicate (32 - length c) 0 @ replicate (length c) 0"
    using n by (simp add: zero_hash_def replicate_add [symmetric])
  have "BytesToHash b = zero_hash \<longleftrightarrow> c = replicate (length c) 0"
    unfolding BytesToHash_drop c_def [symmetric] z by simp
  then show ?thesis
    unfolding c_def [symmetric] by (simp add: all_zero_replicate [symmetric])
qed

lemma length_BytesToHash: "length (BytesToHash b) = 32"
  by (simp add: BytesToHash_def Let_def)

lemma length_GetHashFn: "length (GetHashFn k ctx height) = 32"
  by (simp add: GetHashFn_def Let_def length_BytesToHash zero_hash_def
      split: sum.splits option.splits)

lemma demo_SafeInt64:
  "SafeInt64 demo_keeper 5 = Inr 5" "SafeInt64 demo_keeper 3 = Inr 3"
  "SafeInt64 demo_keeper 4 = Inr 4" "SafeInt64 demo_keeper 9 = Inr 9"
  "SafeInt64 demo_keeper 9223372036854775808 = Inl (ErrExternal ''uint64 value over MaxInt64'')"
  by (simp_all add: demo_keeper_def)

text \<open>
  Claim C5, as amended.  For every requested height, \<open>GetHashFn\<close> returns a 32-byte
  identifier.  A height that does not convert to \<open>int64\<close> gives the zero identifier.  At
  the current height, when the header hash of the context is set (not empty), the result is
  that hash as an identifier (\<open>BytesToHash\<close>), which is non-zero exactly when one of its last
  32 bytes is non-zero; when it is not set, the identifier is recomputed from the header of
  the context, and is zero when the header does not decode.  Below the current height the
  result is the identifier of the historical header when there is a record, zero when there
  is none or when the header does not decode.  Above the current height it is zero.
\<close>

theorem GetHashFn_cases:
  "length (GetHashFn k ctx height) = 32 \<and>
   (\<forall>e. SafeInt64 k height = Inl e \<longrightarrow> GetHashFn k ctx height = zero_hash) \<and>
   (\<forall>h. SafeInt64 k height = Inr h \<longrightarrow>
      (h = BlockHeight ctx \<and> HeaderHash ctx \<noteq> [] \<longrightarrow>
         GetHashFn k ctx height = BytesToHash (HeaderHash ctx) \<and>
         (GetHashFn k ctx height \<noteq> zero_hash \<longleftrightarrow>
            (\<exists>x \<in> set (drop (length (HeaderHash ctx) - 32) (HeaderHash ctx)). x \<noteq> 0))) \<and>
      (h = BlockHeight ctx \<and> HeaderHash ctx = [] \<longrightarrow>
         (\<forall>e. HeaderFromProto k (BlockHeader ctx) = Inl e \<longrightarrow>
              GetHashFn k ctx height = zero_hash) \<and>
         (\<forall>hdr. HeaderFromProto k (BlockHeader ctx) = Inr hdr \<longrightarrow>
              GetHashFn k ctx height = BytesToHash (header_Hash k hdr))) \<and>
      (h <s BlockHeight ctx \<longrightarrow>
         (GetHistoricalInfo k ctx h = None \<longrightarrow> GetHashFn k ctx height = zero_hash) \<and>
         (\<forall>hist. GetHistoricalInfo k ctx h = Some hist \<longrightarrow>
            (\<forall>e. HeaderFromProto k hist = Inl e \<longrightarrow> GetHashFn k ctx height = zero_hash) \<and>
            (\<forall>hdr. HeaderFromProto k hist = Inr hdr \<longrightarrow>
                 GetHashFn k ctx height = BytesToHash (header_Hash k hdr)))) \<and>
      (BlockHeight ctx <s h \<longrightarrow> GetHashFn k ctx height = zero_hash))"
proof -
  have a: "\<forall>e. SafeInt64 k height = Inl e \<longrightarrow> GetHashFn k ctx height = zero_hash"
    by (simp add: GetHashFn_def)
  have b: "GetHashFn k ctx height = BytesToHash (HeaderHash ctx) \<and>
         (GetHashFn k ctx height \<noteq> zero_hash \<longleftrightarrow>
            (\<exists>x \<in> set (drop (length (HeaderHash ctx) - 32) (HeaderHash ctx)). x \<noteq> 0))"
    if "SafeInt64 k height = Inr h" "h = BlockHeight ctx" "HeaderHash ctx \<noteq> []" for h
  proof -
    have e: "GetHashFn k ctx height = BytesToHash (HeaderHash ctx)"
      using that by (simp add: GetHashFn_def Let_def)
    show ?thesis unfolding e using BytesToHash_zero_iff [of "HeaderHash ctx"] by auto
  qed
  have c: "(\<forall>e. HeaderFromProto k (BlockHeader ctx) = Inl e \<longrightarrow>
              GetHashFn k ctx height = zero_hash) \<and>
         (\<forall>hdr. HeaderFromProto k (BlockHeader ctx) = Inr hdr \<longrightarrow>
              GetHashFn k ctx height = BytesToHash (header_Hash k hdr))"
    if "SafeInt64 k height = Inr h" "h = BlockHeight ctx" "HeaderHash ctx = []" for h
    using that by (simp add: GetHashFn_def Let_def)
  have d: "(GetHistoricalInfo k ctx h = None \<longrightarrow> GetHashFn k ctx height = zero_hash) \<and>
         (\<forall>hist. GetHistoricalInfo k ctx h = Some hist \<longrightarrow>
            (\<forall>e. HeaderFromProto k hist = Inl e \<longrightarrow> GetHashFn k ctx height = zero_hash) \<and>
            (\<forall>hdr. HeaderFromProto k hist = Inr hdr \<longrightarrow>
                 GetHashFn k ctx height = BytesToHash (header_Hash k hdr)))"
    if "SafeInt64 k height = Inr h" "h <s BlockHeight ctx" for h
  proof -
    have "BlockHeight ctx \<noteq> h" using that(2) by auto
    then show ?thesis using that by (simp add: GetHashFn_def Let_def)
  qed
  have f: "GetHashFn k ctx height = zero_hash"
    if "SafeInt64 k height = Inr h" "BlockHeight ctx <s h" for h
  proof -
    have "BlockHeight ctx \<noteq> h" using that(2) by auto
    moreover have "\<not> h <s BlockHeight ctx" using that(2) by (simp add: word_sless_alt)
    ultimately show ?thesis using that(1) by (simp add: GetHashFn_def Let_def)
  qed
  show ?thesis
    apply (intro conjI allI impI)
    subgoal by (rule length_GetHashFn)
    subgoal using a by blast
    subgoal using b by blast
    subgoal using b by blast
    subgoal using c by blast
    subgoal using c by blast
    subgoal using d by blast
    subgoal using d by blast
    subgoal using d by blast
    subgoal using f by blast
    done
qed

theorem GetHashFn_cases_witness:
  "GetHashFn demo_keeper demo_ctx 5 = BytesToHash [0, 17] \<and>
   GetHashFn demo_keeper demo_ctx 5 \<noteq> zero_hash \<and>
   GetHashFn demo_keeper query_ctx 5 = BytesToHash [5, 5] \<and>
   GetHashFn demo_keeper bad_header_ctx 5 = zero_hash \<and>
   GetHashFn demo_keeper demo_ctx 3 = BytesToHash [1, 2, 3] \<and>
   GetHashFn demo_keeper demo_ctx 4 = zero_hash \<and>
   GetHashFn demo_keeper demo_ctx 9 = zero_hash \<and>
   GetHashFn demo_keeper demo_ctx 9223372036854775808 = zero_hash"
proof -
  have h: "BlockHeight demo_ctx = 5" "HeaderHash demo_ctx = [0, 17]"
    "BlockHeight query_ctx = 5" "HeaderHash query_ctx = []"
    "BlockHeight bad_header_ctx = 5" "HeaderHash bad_header_ctx = []"
    by (simp_all add: demo_ctx_def query_ctx_def bad_header_ctx_def)
  have p: "HeaderFromProto demo_keeper (BlockHeader query_ctx) = Inr demo_header"
    "header_Hash demo_keeper demo_header = [5, 5]"
    "HeaderFromProto demo_keeper (BlockHeader bad_header_ctx) = Inl (ErrExternal ''invalid header'')"
    by (simp_all add: demo_keeper_def query_ctx_def bad_header_ctx_def demo_ctx_def demo_header_def)
  have g: "GetHistoricalInfo demo_keeper demo_ctx 3 =
             Some \<lparr>hdr_Height = 3, hdr_Time = 30, hdr_ProposerAddress = [9], hdr_rest = [1, 2, 3]\<rparr>"
    "HeaderFromProto demo_keeper
       \<lparr>hdr_Height = 3, hdr_Time = 30, hdr_ProposerAddress = [9], hdr_rest = [1, 2, 3]\<rparr>
       = Inr \<lparr>hdr_Height = 3, hdr_Time = 30, hdr_ProposerAddress = [9], hdr_rest = [1, 2, 3]\<rparr>"
    "header_Hash demo_keeper
       \<lparr>hdr_Height = 3, hdr_Time = 30, hdr_ProposerAddress = [9], hdr_rest = [1, 2, 3]\<rparr> = [1, 2, 3]"
    "GetHistoricalInfo demo_keeper demo_ctx 4 = None"
    by (simp_all add: demo_keeper_def)
  have s: "(3 :: int64) <s 5" "(4 :: int64) <s 5" "(5 :: int64) <s 9"
    by (simp_all add: word_sless_alt)
  have c1: "GetHashFn demo_keeper demo_ctx 5 = BytesToHash [0, 17] \<and>
            GetHashFn demo_keeper demo_ctx 5 \<noteq> zero_hash"
    using GetHashFn_cases [of demo_keeper demo_ctx 5] demo_SafeInt64(1) h(1,2) by auto
  have c2: "GetHashFn demo_keeper query_ctx 5 = BytesToHash [5, 5]"
    using GetHashFn_cases [of demo_keeper query_ctx 5] demo_SafeInt64(1) h(3,4) p(1,2) by simp
  have c3: "GetHashFn demo_keeper bad_header_ctx 5 = zero_hash"
    using GetHashFn_cases [of demo_keeper bad_header_ctx 5] demo_SafeInt64(1) h(5,6) p(3) by simp
  have c4: "GetHashFn demo_keeper demo_ctx 3 = BytesToHash [1, 2, 3]"
    using GetHashFn_cases [of demo_keeper demo_ctx 3] demo_SafeInt64(2) h(1) s(1) g(1,2,3) by simp
  have c5: "GetHashFn demo_keeper demo_ctx 4 = zero_hash"
    using GetHashFn_cases [of demo_keeper demo_ctx 4] demo_SafeInt64(3) h(1) s(2) g(4) by simp
  have c6: "GetHashFn demo_keeper demo_ctx 9 = zero_hash"
    using GetHashFn_cases [of demo_keeper demo_ctx 9] demo_SafeInt64(4) h(1) s(3) by simp
  have c7: "GetHashFn demo_keeper demo_ctx 9223372036854775808 = zero_hash"
    using GetHashFn_cases [of demo_keeper demo_ctx 9223372036854775808] demo_SafeInt64(5) by simp
  from c1 have c1a: "GetHashFn demo_keeper demo_ctx 5 = BytesToHash [0, 17]"
    and c1b: "GetHashFn demo_keeper demo_ctx 5 \<noteq> zero_hash" by blast+
  show ?thesis by (intro conjI) (rule c1a c1b c2 c3 c4 c5 c6 c7)+
qed

text \<open>
  Claim C5 as stated fails in one point: the identifier at the current height need not be
  non-zero once the header hash is set.  The code returns the header hash as it is; a
  header hash of 32 zero bytes is set and yields the zero identifier.
\<close>

theorem GetHashFn_zero_counterexample:
  "SafeInt64 demo_keeper 5 = Inr (BlockHeight zero_header_ctx) \<and>
   HeaderHash zero_header_ctx = replicate 32 0 \<and>
   length (HeaderHash zero_header_ctx) \<noteq> 0 \<and>
   GetHashFn demo_keeper zero_header_ctx 5 = zero_hash"
proof -
  have a: "SafeInt64 demo_keeper 5 = Inr (BlockHeight zero_header_ctx)"
    by (simp add: demo_keeper_def zero_header_ctx_def demo_ctx_def)
  have b: "HeaderHash zero_header_ctx = replicate 32 0"
    by (simp add: zero_header_ctx_def)
  have c: "BytesToHash (replicate 32 0) = zero_hash"
    by (simp add: BytesToHash_def zero_hash_def)
  have d: "GetHashFn demo_keeper zero_header_ctx 5 = zero_hash"
    using a b c by (simp add: GetHashFn_def Let_def)
  show ?thesis using a b d by simp
qed

text \<open>Helpers for the claim about \<open>AnteHandle\<close>.\<close>

lemma withAspectContext_store:
  "ac_store (withAspectContext d ctx m) = ac_store ctx"
  "ac_IsReCheckTx (withAspectContext d ctx m) = ac_IsReCheckTx ctx"
  by (simp_all add: withAspectContext_def Let_def)

lemma verifyMsgs_store:
  "ac_store (fst (fst (verifyMsgs d ctx msgs))) = ac_store ctx \<and>
   ac_IsReCheckTx (fst (fst (verifyMsgs d ctx msgs))) = ac_IsReCheckTx ctx"
  by (induction d ctx msgs rule: verifyMsgs.induct)
     (auto simp: Let_def withAspectContext_store split: sum.splits prod.splits)

lemma verifyMsgs_error:
  "snd (fst (verifyMsgs d ctx msgs)) = Some err \<Longrightarrow>
     err = Wrap ErrUnknownRequest ''invalid message type'' \<or>
     (\<exists>c m. VerifySig d c (AsTransaction d m) = Inl err)"
  by (induction d ctx msgs rule: verifyMsgs.induct)
     (auto simp: Let_def split: sum.splits prod.splits)

lemma verifyMsgs_accept_iff:
  "snd (fst (verifyMsgs d ctx msgs)) = None \<longleftrightarrow>
     (\<forall>i < length msgs. \<exists>m a. msgs ! i = MsgEthereumTx m \<and>
         VerifySig d (ctxAfter d ctx (take (Suc i) msgs)) (AsTransaction d m) = Inr a)"
proof (induction d ctx msgs rule: verifyMsgs.induct)
  case (1 d ctx)
  show ?case by simp
next
  case (2 d ctx t msgs)
  show ?case by auto
next
  case (3 d ctx msgEthTx msgs)
  show ?case
  proof (cases "VerifySig d (withAspectContext d ctx msgEthTx) (AsTransaction d msgEthTx)")
    case (Inl err)
    then show ?thesis by (auto simp: Let_def)
  next
    case (Inr sender)
    have "snd (fst (verifyMsgs d ctx (MsgEthereumTx msgEthTx # msgs))) =
          snd (fst (verifyMsgs d (withAspectContext d ctx msgEthTx) msgs))"
      using Inr by (simp add: Let_def split: prod.splits)
    then show ?thesis
      using Inr 3 [OF refl refl Inr refl]
      by (simp add: All_less_Suc2)
  qed
qed

lemma verifyMsgs_accept:
  "snd (fst (verifyMsgs d ctx msgs)) = None \<Longrightarrow>
     fst (fst (verifyMsgs d ctx msgs)) = ctxAfter d ctx msgs \<and>
     length (snd (verifyMsgs d ctx msgs)) = length msgs \<and>
     (\<forall>i < length msgs. \<exists>m a. msgs ! i = MsgEthereumTx m \<and>
         VerifySig d (ctxAfter d ctx (take (Suc i) msgs)) (AsTransaction d m) = Inr a \<and>
         snd (verifyMsgs d ctx msgs) ! i = MsgEthereumTx (m\<lparr>met_From := address_Hex d a\<rparr>))"
proof (induction d ctx msgs rule: verifyMsgs.induct)
  case (1 d ctx)
  show ?case by simp
next
  case (2 d ctx t msgs)
  then show ?case by simp
next
  case (3 d ctx msgEthTx msgs)
  show ?case
  proof (cases "VerifySig d (withAspectContext d ctx msgEthTx) (AsTransaction d msgEthTx)")
    case (Inl err)
    then show ?thesis using 3(2) by (simp add: Let_def)
  next
    case (Inr sender)
    have e: "verifyMsgs d ctx (MsgEthereumTx msgEthTx # msgs) =
          (fst (verifyMsgs d (withAspectContext d ctx msgEthTx) msgs),
           MsgEthereumTx (msgEthTx\<lparr>met_From := address_Hex d sender\<rparr>) #
             snd (verifyMsgs d (withAspectContext d ctx msgEthTx) msgs))"
      using Inr by (simp add: Let_def split: prod.splits)
    have n: "snd (fst (verifyMsgs d (withAspectContext d ctx msgEthTx) msgs)) = None"
      using 3(2) unfolding e by simp
    note ih = 3(1) [OF refl refl Inr refl n]
    show ?thesis
      unfolding e using ih Inr by (simp add: All_less_Suc2)
  qed
qed

lemma demo_verify:
  "verifyMsgs demo_ante_deps demo_ante_ctx demo_msgs =
     ((ctxAfter demo_ante_deps demo_ante_ctx demo_msgs, None),
      [MsgEthereumTx \<lparr>met_Data = [7], met_From = ''0x01''\<rparr>,
       MsgEthereumTx \<lparr>met_Data = [7, 8], met_From = ''0x02''\<rparr>])"
  "verifyMsgs demo_ante_deps demo_ante_ctx demo_msgs_unsigned =
     ((ctxAfter demo_ante_deps demo_ante_ctx demo_msgs_unsigned,
       Some (ErrExternal ''invalid signature'')),
      [MsgEthereumTx \<lparr>met_Data = [7], met_From = ''0x01''\<rparr>,
       MsgEthereumTx \<lparr>met_Data = [], met_From = []\<rparr>])"
  by (simp_all add: demo_ante_deps_def demo_msgs_def demo_msgs_unsigned_def Let_def)

text \<open>
  Claim C7.  The stage accepts a transaction (the loop ends without an error and the next
  handler is called) if and only if every message is an Ethereum message and the recovery
  of its sender by \<open>VerifySig\<close> succeeds, in the context the loop has built up to that
  message.  On acceptance the next handler receives the messages with the \<open>From\<close> field
  of each set to the recovered sender.  On rejection the stage returns the error (the
  unknown-request error for a message of another type, or the error of \<open>VerifySig\<close>) and
  the next handler is not called.  The stage never reads the re-check flag, so all of this
  holds on re-validation too, and the ledger of the context it returns or passes on is the
  one it was given: the stage only adds the aspect runtime context.  \<open>VerifySig\<close> is a
  collaborator outside the sources, taken as a function of the context and the transaction.
\<close>

theorem sig_verification_stage:
  "(snd (fst (verifyMsgs d ctx msgs)) = None \<longleftrightarrow>
      (\<forall>i < length msgs. \<exists>m a. msgs ! i = MsgEthereumTx m \<and>
          VerifySig d (ctxAfter d ctx (take (Suc i) msgs)) (AsTransaction d m) = Inr a)) \<and>
   (snd (fst (verifyMsgs d ctx msgs)) = None \<longrightarrow>
      AnteHandle d ctx msgs simulate next =
        next (ctxAfter d ctx msgs) (snd (verifyMsgs d ctx msgs)) simulate \<and>
      length (snd (verifyMsgs d ctx msgs)) = length msgs \<and>
      (\<forall>i < length msgs. \<exists>m a. msgs ! i = MsgEthereumTx m \<and>
          VerifySig d (ctxAfter d ctx (take (Suc i) msgs)) (AsTransaction d m) = Inr a \<and>
          snd (verifyMsgs d ctx msgs) ! i = MsgEthereumTx (m\<lparr>met_From := address_Hex d a\<rparr>))) \<and>
   (\<forall>err. snd (fst (verifyMsgs d ctx msgs)) = Some err \<longrightarrow>
      (\<exists>ctx' msgs'. AnteHandle d ctx msgs simulate next = ((ctx', Some err), msgs') \<and>
          ac_store ctx' = ac_store ctx) \<and>
      (err = Wrap ErrUnknownRequest ''invalid message type'' \<or>
       (\<exists>c m. VerifySig d c (AsTransaction d m) = Inl err))) \<and>
   ac_store (ctxAfter d ctx msgs) = ac_store ctx \<and>
   ac_IsReCheckTx (ctxAfter d ctx msgs) = ac_IsReCheckTx ctx"
proof (intro conjI allI impI)
  show "snd (fst (verifyMsgs d ctx msgs)) = None \<longleftrightarrow>
      (\<forall>i < length msgs. \<exists>m a. msgs ! i = MsgEthereumTx m \<and>
          VerifySig d (ctxAfter d ctx (take (Suc i) msgs)) (AsTransaction d m) = Inr a)"
    by (rule verifyMsgs_accept_iff)
next
  assume acc: "snd (fst (verifyMsgs d ctx msgs)) = None"
  note a = verifyMsgs_accept [OF acc]
  obtain c e ms where v: "verifyMsgs d ctx msgs = ((c, e), ms)"
    by (cases "verifyMsgs d ctx msgs") auto
  have "e = None" "c = ctxAfter d ctx msgs" using acc a v by simp_all
  then show "AnteHandle d ctx msgs simulate next =
        next (ctxAfter d ctx msgs) (snd (verifyMsgs d ctx msgs)) simulate"
    using v by (simp add: AnteHandle_def)
  show "length (snd (verifyMsgs d ctx msgs)) = length msgs" using a by blast
  show "\<exists>m a. msgs ! i = MsgEthereumTx m \<and>
          VerifySig d (ctxAfter d ctx (take (Suc i) msgs)) (AsTransaction d m) = Inr a \<and>
          snd (verifyMsgs d ctx msgs) ! i = MsgEthereumTx (m\<lparr>met_From := address_Hex d a\<rparr>)"
    if "i < length msgs" for i
    using a that by blast
next
  fix err
  assume rej: "snd (fst (verifyMsgs d ctx msgs)) = Some err"
  obtain c e ms where v: "verifyMsgs d ctx msgs = ((c, e), ms)"
    by (cases "verifyMsgs d ctx msgs") auto
  have e: "e = Some err" using rej v by simp
  have s: "ac_store c = ac_store ctx" using verifyMsgs_store [of d ctx msgs] v by simp
  have "AnteHandle d ctx msgs simulate next = ((c, Some err), ms)"
    using v e by (simp add: AnteHandle_def)
  then show "\<exists>ctx' msgs'. AnteHandle d ctx msgs simulate next = ((ctx', Some err), msgs') \<and>
          ac_store ctx' = ac_store ctx"
    using s by blast
  show "err = Wrap ErrUnknownRequest ''invalid message type'' \<or>
       (\<exists>c m. VerifySig d c (AsTransaction d m) = Inl err)"
    using rej by (rule verifyMsgs_error)
next
  show "ac_store (ctxAfter d ctx msgs) = ac_store ctx"
    by (induction d ctx msgs rule: ctxAfter.induct) (simp_all add: withAspectContext_store)
  show "ac_IsReCheckTx (ctxAfter d ctx msgs) = ac_IsReCheckTx ctx"
    by (induction d ctx msgs rule: ctxAfter.induct) (simp_all add: withAspectContext_store)
qed

theorem sig_verification_stage_witness:
  "ac_IsReCheckTx demo_ante_ctx \<and>
   AnteHandle demo_ante_deps demo_ante_ctx demo_msgs False demo_next =
     ((ctxAfter demo_ante_deps demo_ante_ctx demo_msgs, None),
      [MsgEthereumTx \<lparr>met_Data = [7], met_From = ''0x01''\<rparr>,
       MsgEthereumTx \<lparr>met_Data = [7, 8], met_From = ''0x02''\<rparr>]) \<and>
   ac_store (ctxAfter demo_ante_deps demo_ante_ctx demo_msgs) = 42 \<and>
   (\<exists>ctx' msgs'.
      AnteHandle demo_ante_deps demo_ante_ctx demo_msgs_unsigned False demo_next =
        ((ctx', Some (ErrExternal ''invalid signature'')), msgs') \<and>
      ac_store ctx' = 42)"
proof -
  have r: "ac_IsReCheckTx demo_ante_ctx" and s: "ac_store demo_ante_ctx = 42"
    by (simp_all add: demo_ante_ctx_def)
  have a: "AnteHandle demo_ante_deps demo_ante_ctx demo_msgs False demo_next =
     ((ctxAfter demo_ante_deps demo_ante_ctx demo_msgs, None),
      [MsgEthereumTx \<lparr>met_Data = [7], met_From = ''0x01''\<rparr>,
       MsgEthereumTx \<lparr>met_Data = [7, 8], met_From = ''0x02''\<rparr>])"
    and b: "ac_store (ctxAfter demo_ante_deps demo_ante_ctx demo_msgs) = 42"
    using sig_verification_stage [of demo_ante_deps demo_ante_ctx demo_msgs False demo_next]
    by (simp_all add: demo_verify(1) demo_next_def s)
  have c: "\<exists>ctx' msgs'.
      AnteHandle demo_ante_deps demo_ante_ctx demo_msgs_unsigned False demo_next =
        ((ctx', Some (ErrExternal ''invalid signature'')), msgs') \<and>
      ac_store ctx' = 42"
    using sig_verification_stage [of demo_ante_deps demo_ante_ctx demo_msgs_unsigned False demo_next]
    by (simp add: demo_verify(2) s)
  show ?thesis using r a b c by (intro conjI)
qed


end
